theory Spec2Isabelle
  imports Main "HOL-Library.AList"
begin

section \<open>Settings (src/main.py, class Settings)\<close>

text \<open>
  The desktop application keeps its settings in an object whose fields are written to
  \<^verbatim>\<open>vmix_settings.json\<close> by \<^verbatim>\<open>Settings.save\<close>. The two floating-point fields
  (\<^verbatim>\<open>ui_scale\<close>, \<^verbatim>\<open>version\<close>) are only copied, never computed with, so their type is
  left as a parameter \<open>'f\<close>.
\<close>

record 'f Settings =
  ip :: string
  port :: string
  login :: string
  password :: string
  remember_creds :: bool
  show_settings :: bool
  ui_scale :: 'f
  fullscreen :: bool
  version :: 'f
  scale_slider_step :: int

text \<open>The values a settings dictionary holds, as \<^verbatim>\<open>json.dump\<close> sees them.\<close>

datatype 'f json = JStr string | JBool bool | JInt int | JFloat 'f

text \<open>
  \<^verbatim>\<open>Settings.__init__\<close>: the defaults. The literals \<^verbatim>\<open>1.0\<close> and \<^verbatim>\<open>1.2\<close> are parameters.
\<close>

definition Settings_init :: "'f \<Rightarrow> 'f \<Rightarrow> 'f Settings" where
  "Settings_init one version0 =
     \<lparr> ip = ''127.0.0.1'', port = ''8088'', login = '''', password = '''',
       remember_creds = False, show_settings = True, ui_scale = one,
       fullscreen = False, version = version0, scale_slider_step = 5 \<rparr>"

text \<open>
  The dictionary \<^verbatim>\<open>data\<close> built by \<^verbatim>\<open>Settings.save\<close>, in insertion order
  (lines 57-68 of src/main.py).
\<close>

definition save_data :: "'f Settings \<Rightarrow> (string \<times> 'f json) list" where
  "save_data s =
     [ (''ip'', JStr (ip s)),
       (''port'', JStr (port s)),
       (''login'', JStr (if remember_creds s then login s else '''')),
       (''password'', JStr (if remember_creds s then password s else '''')),
       (''remember_creds'', JBool (remember_creds s)),
       (''show_settings'', JBool (show_settings s)),
       (''ui_scale'', JFloat (ui_scale s)),
       (''fullscreen'', JBool (fullscreen s)),
       (''version'', JFloat (version s)),
       (''scale_slider_step'', JInt (scale_slider_step s)) ]"

text \<open>
  \<^verbatim>\<open>Settings.save\<close>: the file system is a map from file names to contents; the file
  \<^verbatim>\<open>vmix_settings.json\<close> is overwritten with the serialisation of \<^verbatim>\<open>data\<close>. The
  serialiser \<^verbatim>\<open>json.dump(data, f, indent=2)\<close> is a library function and is taken as the
  parameter \<open>dump\<close>.
\<close>

definition save ::
  "((string \<times> 'f json) list \<Rightarrow> 'c) \<Rightarrow> 'f Settings \<Rightarrow> (string \<rightharpoonup> 'c) \<Rightarrow> (string \<rightharpoonup> 'c)" where
  "save dump s fs = fs(''vmix_settings.json'' \<mapsto> dump (save_data s))"


section \<open>Transport\<close>

text \<open>
  Both clients reach the mixer through \<^verbatim>\<open>requests.get(url, timeout=...)\<close>. A call either
  returns a response (status code and body text) or raises. The mixer and the network are
  the environment: a function from the requests made so far and the requested URL to the
  outcome of the call, so that an outcome may depend on the URL (a command that the mixer
  refuses) as well as on the moment of the call (a link that goes down). The list of URLs
  requested so far is threaded through every function that touches the network.
\<close>

datatype outcome = Response int string | ConnectionError | Timeout | OtherException

type_synonym network = "string list \<Rightarrow> string \<Rightarrow> outcome"

definition requests_get :: "network \<Rightarrow> string \<Rightarrow> string list \<Rightarrow> outcome \<times> string list" where
  "requests_get net url log = (net log url, log @ [url])"


section \<open>XML documents\<close>

text \<open>
  An element of \<^verbatim>\<open>xml.etree.ElementTree\<close>: tag, attribute dictionary, text (\<^verbatim>\<open>None\<close> for
  an element without text) and children in document order. The parser
  \<^verbatim>\<open>ET.fromstring\<close> is a library function; it is a parameter of the model, with \<open>None\<close>
  standing for a raised \<^verbatim>\<open>ParseError\<close>.
\<close>

datatype Element =
  Element (tag: string) (attrib: "(string \<times> string) list") (etext: "string option")
    (children: "Element list")

type_synonym parser = "string \<Rightarrow> Element option"

text \<open>\<^verbatim>\<open>elem.get(key)\<close> and \<^verbatim>\<open>elem.get(key, default)\<close>.\<close>

definition get :: "Element \<Rightarrow> string \<Rightarrow> string option" where
  "get e k = map_of (attrib e) k"

definition get_default :: "Element \<Rightarrow> string \<Rightarrow> string \<Rightarrow> string" where
  "get_default e k d = (case map_of (attrib e) k of None \<Rightarrow> d | Some v \<Rightarrow> v)"

text \<open>\<^verbatim>\<open>root.find(name)\<close>: the first child with that tag, or \<^verbatim>\<open>None\<close>.\<close>

definition find_child :: "Element \<Rightarrow> string \<Rightarrow> Element option" where
  "find_child root name = find (\<lambda>c. tag c = name) (children root)"

text \<open>
  \<^verbatim>\<open>root.findall('a/b')\<close>: the children tagged \<open>b\<close> of the children tagged \<open>a\<close> of the
  root, in document order.
\<close>

definition findall :: "Element \<Rightarrow> string \<Rightarrow> string \<Rightarrow> Element list" where
  "findall root a b =
     concat (map (\<lambda>i. filter (\<lambda>c. tag c = b) (children i))
                 (filter (\<lambda>c. tag c = a) (children root)))"


section \<open>The API client (class vMixAPI)\<close>

record vMixAPI =
  base_url :: string
  timeout :: nat

text \<open>\<^verbatim>\<open>vMixAPI.__init__\<close> of src/main.py (timeout 5) and of src/mobile/main.py (timeout 2).\<close>

definition vMixAPI_init :: "string \<Rightarrow> string \<Rightarrow> vMixAPI" where
  "vMixAPI_init ip' port' =
     \<lparr> base_url = ''http://'' @ ip' @ '':'' @ port' @ ''/api'', timeout = 5 \<rparr>"

definition vMixAPI_init_m :: "string \<Rightarrow> string \<Rightarrow> vMixAPI" where
  "vMixAPI_init_m ip' port' =
     \<lparr> base_url = ''http://'' @ ip' @ '':'' @ port' @ ''/api'', timeout = 2 \<rparr>"

text \<open>Python's \<^verbatim>\<open>sep.join(xs)\<close>.\<close>

fun join :: "string \<Rightarrow> string list \<Rightarrow> string" where
  "join sep [] = []"
| "join sep [x] = x"
| "join sep (x # y # ys) = x @ sep @ join sep (y # ys)"

text \<open>
  \<^verbatim>\<open>send_command(command, **params)\<close>: builds the URL, sends one GET and returns whether
  the status code is 200. Every exception is caught inside and turned into \<^verbatim>\<open>False\<close>,
  so no exception leaves this method. The two clients have the same code.
\<close>

definition send_command ::
  "network \<Rightarrow> vMixAPI \<Rightarrow> string \<Rightarrow> (string \<times> string) list \<Rightarrow> string list \<Rightarrow> bool \<times> string list" where
  "send_command net api command params log =
     (let params_str = join ''&'' (map (\<lambda>(k, v). k @ ''='' @ v) params);
          url = base_url api @ ''/?Function='' @ command;
          url = (if params_str \<noteq> [] then url @ ''&'' @ params_str else url);
          (response, log') = requests_get net url log
      in case response of
           Response status_code body \<Rightarrow> (status_code = 200, log')
         | _ \<Rightarrow> (False, log'))"

text \<open>
  \<^verbatim>\<open>get_xml_data()\<close>: one GET of the state document; the body on status 200, \<^verbatim>\<open>None\<close> on
  any other status and on every exception.
\<close>

definition get_xml_data :: "network \<Rightarrow> vMixAPI \<Rightarrow> string list \<Rightarrow> string option \<times> string list" where
  "get_xml_data net api log =
     (let url = base_url api @ ''/'';
          (response, log') = requests_get net url log
      in case response of
           Response status_code body \<Rightarrow> (if status_code = 200 then Some body else None, log')
         | ConnectionError \<Rightarrow> (None, log')
         | Timeout \<Rightarrow> (None, log')
         | OtherException \<Rightarrow> (None, log'))"

text \<open>
  The dictionary built for one input by \<^verbatim>\<open>get_inputs\<close> of src/main.py. The value under
  \<^verbatim>\<open>'number'\<close> is \<^verbatim>\<open>None\<close> when the attribute is missing; the field \<open>input_type\<close> is
  the entry \<^verbatim>\<open>'type'\<close>.
\<close>

record input_data =
  number :: "string option"
  title :: string
  input_type :: string
  state :: string
  duration :: string
  position :: string
  short_title :: string
  key :: string

text \<open>Python's \<^verbatim>\<open>str\<close> inside an f-string, for an optional string.\<close>

definition str_opt :: "string option \<Rightarrow> string" where
  "str_opt x = (case x of None \<Rightarrow> ''None'' | Some v \<Rightarrow> v)"

definition make_input_data :: "Element \<Rightarrow> input_data" where
  "make_input_data input_elem =
     \<lparr> number = get input_elem ''number'',
       title = get_default input_elem ''title'' (''Input '' @ str_opt (get input_elem ''number'')),
       input_type = get_default input_elem ''type'' ''Unknown'',
       state = get_default input_elem ''state'' '''',
       duration = get_default input_elem ''duration'' ''0'',
       position = get_default input_elem ''position'' ''0'',
       short_title = get_default input_elem ''shortTitle'' '''',
       key = get_default input_elem ''key'' '''' \<rparr>"

text \<open>
  \<^verbatim>\<open>get_inputs()\<close> of src/main.py: one fetch; the empty list when the fetch gives nothing
  (\<^verbatim>\<open>None\<close> or the empty string, both false in Python) or the document does not parse.
\<close>

definition get_inputs ::
  "parser \<Rightarrow> network \<Rightarrow> vMixAPI \<Rightarrow> string list \<Rightarrow> input_data list \<times> string list" where
  "get_inputs fromstring net api log =
     (let (xml_data, log') = get_xml_data net api log
      in case xml_data of
           None \<Rightarrow> ([], log')
         | Some xml \<Rightarrow>
             if xml = [] then ([], log')
             else (case fromstring xml of
                     None \<Rightarrow> ([], log')
                   | Some root \<Rightarrow> (map make_input_data (findall root ''inputs'' ''input''), log')))"

text \<open>
  The dictionary built by \<^verbatim>\<open>get_inputs\<close> of src/mobile/main.py has three entries only.
\<close>

record input_data_m =
  number_m :: "string option"
  title_m :: string
  short_title_m :: string

definition make_input_data_m :: "Element \<Rightarrow> input_data_m" where
  "make_input_data_m input_elem =
     \<lparr> number_m = get input_elem ''number'',
       title_m = get_default input_elem ''title'' (''Input '' @ str_opt (get input_elem ''number'')),
       short_title_m = get_default input_elem ''shortTitle'' '''' \<rparr>"

definition get_inputs_m ::
  "parser \<Rightarrow> network \<Rightarrow> vMixAPI \<Rightarrow> string list \<Rightarrow> input_data_m list \<times> string list" where
  "get_inputs_m fromstring net api log =
     (let (xml_data, log') = get_xml_data net api log
      in case xml_data of
           None \<Rightarrow> ([], log')
         | Some xml \<Rightarrow>
             if xml = [] then ([], log')
             else (case fromstring xml of
                     None \<Rightarrow> ([], log')
                   | Some root \<Rightarrow> (map make_input_data_m (findall root ''inputs'' ''input''), log')))"

text \<open>
  The two dictionaries entry by entry, keys in the order the source writes them: eight
  entries on the desktop (src/main.py, lines 152-161), three on the mobile client
  (src/mobile/main.py, lines 82-86). A value is \<^verbatim>\<open>None\<close> or a string.
\<close>

definition as_dict :: "input_data \<Rightarrow> (string \<times> string option) list" where
  "as_dict d =
     [ (''number'', number d),
       (''title'', Some (title d)),
       (''type'', Some (input_type d)),
       (''state'', Some (state d)),
       (''duration'', Some (duration d)),
       (''position'', Some (position d)),
       (''short_title'', Some (short_title d)),
       (''key'', Some (key d)) ]"

definition as_dict_m :: "input_data_m \<Rightarrow> (string \<times> string option) list" where
  "as_dict_m d =
     [ (''number'', number_m d),
       (''title'', Some (title_m d)),
       (''short_title'', Some (short_title_m d)) ]"

text \<open>
  \<^verbatim>\<open>get_active_input()\<close> and \<^verbatim>\<open>get_preview_input()\<close>: one fetch each; the text of the
  first top-level \<^verbatim>\<open>active\<close> (\<^verbatim>\<open>preview\<close>) element, \<^verbatim>\<open>None\<close> when the element is absent,
  when the fetch gives nothing and when the document does not parse. The two clients have
  the same code; \<open>get_element_text\<close> is the body the two methods share up to the tag.
\<close>

definition get_element_text ::
  "string \<Rightarrow> parser \<Rightarrow> network \<Rightarrow> vMixAPI \<Rightarrow> string list \<Rightarrow> string option \<times> string list" where
  "get_element_text name fromstring net api log =
     (let (xml_data, log') = get_xml_data net api log
      in case xml_data of
           None \<Rightarrow> (None, log')
         | Some xml \<Rightarrow>
             if xml = [] then (None, log')
             else (case fromstring xml of
                     None \<Rightarrow> (None, log')
                   | Some root \<Rightarrow>
                       (case find_child root name of
                          Some elem \<Rightarrow> (etext elem, log')
                        | None \<Rightarrow> (None, log'))))"

definition get_active_input ::
  "parser \<Rightarrow> network \<Rightarrow> vMixAPI \<Rightarrow> string list \<Rightarrow> string option \<times> string list" where
  "get_active_input = get_element_text ''active''"

definition get_preview_input ::
  "parser \<Rightarrow> network \<Rightarrow> vMixAPI \<Rightarrow> string list \<Rightarrow> string option \<times> string list" where
  "get_preview_input = get_element_text ''preview''"


section \<open>The desktop controller (class VMixController, src/main.py)\<close>

text \<open>
  The controller is a window object. Its fields that take part in synchronisation are kept;
  the widgets are not. What the methods do to the widgets is recorded as a list of
  events: a status-bar message (the way every method reports its result), the two
  refresh calls \<^verbatim>\<open>update_tile_styles()\<close> and \<^verbatim>\<open>update_input_info()\<close> that publish a
  change of the active or preview input, \<^verbatim>\<open>update_all_styles()\<close> and \<^verbatim>\<open>flash_button\<close>.
  Calls that only restyle, label or enable a button (\<^verbatim>\<open>setStyleSheet\<close>, \<^verbatim>\<open>setText\<close>,
  \<^verbatim>\<open>setEnabled\<close>) change nothing that is modelled and are left out.

  Each status-bar message of the source starts with a pictograph, kept here as an
  \<open>icon\<close>: the cross mark opens every message that reports a failure.
\<close>

datatype icon = NoIcon | CrossMark | CheckMark | Television | Arrows | Moon | PlusSign | RemoveSign

datatype ui_event =
    ShowMessage icon string
  | UpdateTileStyles
  | UpdateInputInfo
  | UpdateAllStyles
  | FlashButton

record VMixController =
  vmix_api :: "vMixAPI option"
  input_tiles :: "(string option \<times> input_data) list"
  active_input :: "string option"
  preview_input :: "string option"
  ftb_timer :: bool
  ftb_active :: bool
  active_overlays :: "nat \<rightharpoonup> bool"
  ui :: "ui_event list"
  http_log :: "string list"

text \<open>
  The fields as \<^verbatim>\<open>__init__\<close> sets them. \<open>input_tiles\<close> is the dictionary from input
  number to tile, in insertion order, each tile standing for the input data it shows;
  \<open>ftb_timer\<close> tells whether the blink timer runs; \<open>http_log\<close> is the list of requests
  made so far.
\<close>

definition VMixController_init :: VMixController where
  "VMixController_init =
     \<lparr> vmix_api = None, input_tiles = [], active_input = None, preview_input = None,
       ftb_timer = False, ftb_active = False,
       active_overlays = [1 \<mapsto> False, 2 \<mapsto> False, 3 \<mapsto> False, 4 \<mapsto> False],
       ui = [], http_log = [] \<rparr>"

definition emit :: "ui_event \<Rightarrow> VMixController \<Rightarrow> VMixController" where
  "emit e s = s\<lparr>ui := ui s @ [e]\<rparr>"

definition showMessage :: "icon \<Rightarrow> string \<Rightarrow> VMixController \<Rightarrow> VMixController" where
  "showMessage i m s = emit (ShowMessage i m) s"

text \<open>Python's truth value of an optional string: \<^verbatim>\<open>None\<close> and \<^verbatim>\<open>""\<close> are false.\<close>

definition truthy :: "string option \<Rightarrow> bool" where
  "truthy x = (case x of None \<Rightarrow> False | Some v \<Rightarrow> v \<noteq> [])"

text \<open>Python's \<^verbatim>\<open>str\<close> of a natural number, for the layer in a command name.\<close>

definition digit :: "nat \<Rightarrow> char" where
  "digit d = ''0123456789'' ! d"

fun str_nat :: "nat \<Rightarrow> string" where
  "str_nat n = (if n < 10 then [digit n] else str_nat (n div 10) @ [digit (n mod 10)])"

declare str_nat.simps [simp del]

text \<open>
  The loop of \<^verbatim>\<open>load_inputs\<close> that creates one tile for each input and stores it under
  the input's number: \<^verbatim>\<open>self.input_tiles[input_data['number']] = tile\<close>. A number met a
  second time replaces the tile stored under it and keeps its place, as a Python
  dictionary does.
\<close>

fun build_tiles ::
  "input_data list \<Rightarrow> (string option \<times> input_data) list \<Rightarrow> (string option \<times> input_data) list" where
  "build_tiles [] tiles = tiles"
| "build_tiles (d # ds) tiles = build_tiles ds (AList.update (number d) d tiles)"

text \<open>
  \<^verbatim>\<open>load_inputs()\<close>: clears the tiles, fetches the inputs, and, unless the list is empty,
  fetches the active input and then the preview input, each with a request of its own,
  and builds the tiles.
\<close>

definition load_inputs :: "parser \<Rightarrow> network \<Rightarrow> VMixController \<Rightarrow> VMixController" where
  "load_inputs fromstring net s =
     (case vmix_api s of
        None \<Rightarrow> showMessage CrossMark ''Not connected to vMix'' s
      | Some api \<Rightarrow>
          let s = s\<lparr>input_tiles := []\<rparr>;
              (inputs, log1) = get_inputs fromstring net api (http_log s);
              s = s\<lparr>http_log := log1\<rparr>
          in if inputs = [] then showMessage CrossMark ''Failed to get inputs list'' s
             else
               let (a, log2) = get_active_input fromstring net api (http_log s);
                   s = s\<lparr>active_input := a, http_log := log2\<rparr>;
                   (p, log3) = get_preview_input fromstring net api (http_log s);
                   s = s\<lparr>preview_input := p, http_log := log3\<rparr>;
                   s = s\<lparr>input_tiles := build_tiles inputs (input_tiles s)\<rparr>
               in showMessage CheckMark (''Loaded inputs: '' @ str_nat (length inputs))
                    (emit UpdateInputInfo s))"

text \<open>
  \<^verbatim>\<open>connect_to_vmix()\<close>, with the texts of the two address fields as arguments.
\<close>

definition connect_to_vmix ::
  "parser \<Rightarrow> network \<Rightarrow> string \<Rightarrow> string \<Rightarrow> VMixController \<Rightarrow> VMixController" where
  "connect_to_vmix fromstring net ip' port' s =
     (if ip' = [] then showMessage CrossMark ''Enter vMix IP address!'' s
      else
        let s = showMessage NoIcon (''Connecting to '' @ ip' @ '':'' @ port' @ ''...'') s;
            api = vMixAPI_init ip' port';
            s = s\<lparr>vmix_api := Some api\<rparr>;
            (xml_data, log') = get_xml_data net api (http_log s);
            s = s\<lparr>http_log := log'\<rparr>
        in if truthy xml_data
           then load_inputs fromstring net
                  (showMessage CheckMark (''Connected to vMix '' @ ip' @ '':'' @ port') s)
           else (showMessage CrossMark ''Failed to connect to vMix'' s)\<lparr>vmix_api := None\<rparr>)"

text \<open>\<^verbatim>\<open>on_tile_clicked(input_number)\<close>: puts an input in preview.\<close>

definition on_tile_clicked :: "network \<Rightarrow> string \<Rightarrow> VMixController \<Rightarrow> VMixController" where
  "on_tile_clicked net input_number s =
     (case vmix_api s of
        None \<Rightarrow> showMessage CrossMark ''Not connected to vMix'' s
      | Some api \<Rightarrow>
          let (success, log') = send_command net api ''PreviewInput'' [(''Input'', input_number)] (http_log s);
              s = s\<lparr>http_log := log'\<rparr>
          in if success
             then showMessage Television (''Set to preview: V'' @ input_number)
                    (emit UpdateInputInfo (emit UpdateTileStyles (s\<lparr>preview_input := Some input_number\<rparr>)))
             else showMessage CrossMark ''Preview set error'' s)"

text \<open>
  \<^verbatim>\<open>quick_play()\<close>: \<^verbatim>\<open>Fade\<close> to the preview input, and \<^verbatim>\<open>Cut\<close> to it when the fade is
  refused.
\<close>

definition quick_play :: "network \<Rightarrow> VMixController \<Rightarrow> VMixController" where
  "quick_play net s =
     (case vmix_api s of
        None \<Rightarrow> showMessage CrossMark ''Select input in preview first!'' s
      | Some api \<Rightarrow>
          (case preview_input s of
             None \<Rightarrow> showMessage CrossMark ''Select input in preview first!'' s
           | Some p \<Rightarrow>
               if p = [] then showMessage CrossMark ''Select input in preview first!'' s
               else
                 let (success, log1) = send_command net api ''Fade'' [(''Input'', p)] (http_log s);
                     s = s\<lparr>http_log := log1\<rparr>
                 in if success
                    then showMessage Arrows (''Smooth transition to V'' @ p)
                           (emit FlashButton (emit UpdateInputInfo (emit UpdateTileStyles
                              (s\<lparr>active_input := preview_input s\<rparr>))))
                    else
                      let (success_cut, log2) = send_command net api ''Cut'' [(''Input'', p)] (http_log s);
                          s = s\<lparr>http_log := log2\<rparr>
                      in if success_cut
                         then showMessage CheckMark (''Cut transition to V'' @ p)
                                (emit FlashButton (emit UpdateInputInfo (emit UpdateTileStyles
                                   (s\<lparr>active_input := preview_input s\<rparr>))))
                         else showMessage CrossMark ''Transition error'' s))"

text \<open>
  \<^verbatim>\<open>fade_to_black()\<close>: the flag is flipped first; the branch that switches the effect on
  takes the flip back when the command fails, the branch that switches it off has no
  \<^verbatim>\<open>else\<close>.
\<close>

definition fade_to_black :: "network \<Rightarrow> VMixController \<Rightarrow> VMixController" where
  "fade_to_black net s =
     (case vmix_api s of
        None \<Rightarrow> showMessage CrossMark ''Not connected to vMix'' s
      | Some api \<Rightarrow>
          let s = s\<lparr>ftb_active := \<not> ftb_active s\<rparr>
          in if ftb_active s
             then
               let (success, log') = send_command net api ''FadeToBlack'' [] (http_log s);
                   s = s\<lparr>http_log := log'\<rparr>
               in if success
                  then showMessage Moon ''Fade To Black enabled'' (s\<lparr>ftb_timer := True\<rparr>)
                  else showMessage CrossMark ''Fade To Black error'' (s\<lparr>ftb_active := False\<rparr>)
             else
               let (success, log') = send_command net api ''FadeToBlack'' [] (http_log s);
                   s = s\<lparr>http_log := log'\<rparr>
               in if success
                  then showMessage Moon ''Fade To Black disabled'' (s\<lparr>ftb_timer := False\<rparr>)
                  else s)"


text \<open>
  \<^verbatim>\<open>remove_overlay()\<close>: the loop over \<^verbatim>\<open>range(1, 5)\<close> sends one command for each layer,
  drops its result and clears the layer's flag. The handler around the loop is never
  entered, since \<^verbatim>\<open>send_command\<close> raises nothing.
\<close>

fun remove_overlay_loop :: "network \<Rightarrow> vMixAPI \<Rightarrow> nat list \<Rightarrow> VMixController \<Rightarrow> VMixController" where
  "remove_overlay_loop net api [] s = s"
| "remove_overlay_loop net api (layer # layers) s =
     (let (success, log') =
            send_command net api (''OverlayInput'' @ str_nat layer @ ''Out'') [] (http_log s);
          s = s\<lparr>http_log := log'\<rparr>;
          s = s\<lparr>active_overlays := (active_overlays s)(layer \<mapsto> False)\<rparr>
      in remove_overlay_loop net api layers s)"

definition remove_overlay :: "network \<Rightarrow> VMixController \<Rightarrow> VMixController" where
  "remove_overlay net s =
     (case vmix_api s of
        None \<Rightarrow> showMessage CrossMark ''Not connected to vMix'' s
      | Some api \<Rightarrow>
          showMessage RemoveSign ''All overlays removed''
            (emit UpdateAllStyles (remove_overlay_loop net api [1..<5] s)))"

text \<open>
  \<^verbatim>\<open>update_states()\<close>, the timer's callback: two fetches, then the comparison with the
  stored pair.
\<close>

definition update_states :: "parser \<Rightarrow> network \<Rightarrow> VMixController \<Rightarrow> VMixController" where
  "update_states fromstring net s =
     (case vmix_api s of
        None \<Rightarrow> s
      | Some api \<Rightarrow>
          let (new_active, log1) = get_active_input fromstring net api (http_log s);
              s = s\<lparr>http_log := log1\<rparr>;
              (new_preview, log2) = get_preview_input fromstring net api (http_log s);
              s = s\<lparr>http_log := log2\<rparr>
          in if new_active \<noteq> active_input s \<or> new_preview \<noteq> preview_input s
             then emit UpdateInputInfo (emit UpdateTileStyles
                    (s\<lparr>active_input := new_active, preview_input := new_preview\<rparr>))
             else s)"


section \<open>The mobile controller (class VMixControllerMobile, src/mobile/main.py)\<close>

text \<open>
  The mobile application keeps the decoded inputs in a list and reports through the one
  string \<^verbatim>\<open>status_text\<close>, which each method overwrites. Names that the desktop
  controller also has carry the suffix \<open>_m\<close>.
\<close>

record VMixControllerMobile =
  vmix_api_m :: "vMixAPI option"
  inputs_m :: "input_data_m list"
  active_input_m :: "string option"
  preview_input_m :: "string option"
  ftb_active_m :: bool
  status_text :: string
  connected :: bool
  http_log_m :: "string list"

definition VMixControllerMobile_init :: VMixControllerMobile where
  "VMixControllerMobile_init =
     \<lparr> vmix_api_m = None, inputs_m = [], active_input_m = None, preview_input_m = None,
       ftb_active_m = False, status_text = ''Ready to connect'', connected = False,
       http_log_m = [] \<rparr>"

text \<open>\<^verbatim>\<open>load_inputs()\<close>: three fetches in a row, whatever the first one gives.\<close>

definition load_inputs_m :: "parser \<Rightarrow> network \<Rightarrow> VMixControllerMobile \<Rightarrow> VMixControllerMobile" where
  "load_inputs_m fromstring net s =
     (case vmix_api_m s of
        None \<Rightarrow> s
      | Some api \<Rightarrow>
          let (inputs, log1) = get_inputs_m fromstring net api (http_log_m s);
              s = s\<lparr>inputs_m := inputs, http_log_m := log1\<rparr>;
              (a, log2) = get_active_input fromstring net api (http_log_m s);
              s = s\<lparr>active_input_m := a, http_log_m := log2\<rparr>;
              (p, log3) = get_preview_input fromstring net api (http_log_m s)
          in s\<lparr>preview_input_m := p, http_log_m := log3\<rparr>)"

text \<open>
  \<^verbatim>\<open>connect_to_vmix(instance)\<close>. The client object stays in place when the connection
  fails; only the flag \<^verbatim>\<open>connected\<close> tells.
\<close>

definition connect_to_vmix_m ::
  "parser \<Rightarrow> network \<Rightarrow> string \<Rightarrow> string \<Rightarrow> VMixControllerMobile \<Rightarrow> VMixControllerMobile" where
  "connect_to_vmix_m fromstring net ip' port' s =
     (if ip' = [] then s\<lparr>status_text := ''Enter IP address''\<rparr>
      else
        let api = vMixAPI_init_m ip' port';
            s = s\<lparr>vmix_api_m := Some api\<rparr>;
            (xml_data, log') = get_xml_data net api (http_log_m s);
            s = s\<lparr>http_log_m := log'\<rparr>
        in if truthy xml_data
           then load_inputs_m fromstring net
                  (s\<lparr>status_text := ''Connected to '' @ ip' @ '':'' @ port', connected := True\<rparr>)
           else s\<lparr>status_text := ''Failed to connect'', connected := False\<rparr>)"

text \<open>
  \<^verbatim>\<open>quick_play(instance)\<close>: one \<^verbatim>\<open>Fade\<close> whose result is dropped, the active input set
  to the preview input, then a reload.
\<close>

definition quick_play_m :: "parser \<Rightarrow> network \<Rightarrow> VMixControllerMobile \<Rightarrow> VMixControllerMobile" where
  "quick_play_m fromstring net s =
     (case vmix_api_m s of
        None \<Rightarrow> s\<lparr>status_text := ''Select preview first''\<rparr>
      | Some api \<Rightarrow>
          (case preview_input_m s of
             None \<Rightarrow> s\<lparr>status_text := ''Select preview first''\<rparr>
           | Some p \<Rightarrow>
               if p = [] then s\<lparr>status_text := ''Select preview first''\<rparr>
               else
                 let (success, log') = send_command net api ''Fade'' [(''Input'', p)] (http_log_m s);
                     s = s\<lparr>http_log_m := log'\<rparr>;
                     s = s\<lparr>active_input_m := preview_input_m s\<rparr>;
                     s = load_inputs_m fromstring net s
                 in s\<lparr>status_text := ''Transition to V'' @ str_opt (preview_input_m s)\<rparr>))"

text \<open>\<^verbatim>\<open>fade_to_black(instance)\<close>: the flag is flipped and the command's result dropped.\<close>

definition fade_to_black_m :: "network \<Rightarrow> VMixControllerMobile \<Rightarrow> VMixControllerMobile" where
  "fade_to_black_m net s =
     (case vmix_api_m s of
        None \<Rightarrow> s
      | Some api \<Rightarrow>
          let s = s\<lparr>ftb_active_m := \<not> ftb_active_m s\<rparr>;
              (success, log') = send_command net api ''FadeToBlack'' [] (http_log_m s);
              s = s\<lparr>http_log_m := log'\<rparr>
          in s\<lparr>status_text := ''FTB: '' @ (if ftb_active_m s then ''ON'' else ''OFF'')\<rparr>)"

text \<open>
  \<^verbatim>\<open>update_states(dt)\<close>, called every second: the same two fetches and comparison as on
  the desktop; a change is published by a reload.
\<close>

definition update_states_m :: "parser \<Rightarrow> network \<Rightarrow> VMixControllerMobile \<Rightarrow> VMixControllerMobile" where
  "update_states_m fromstring net s =
     (case vmix_api_m s of
        None \<Rightarrow> s
      | Some api \<Rightarrow>
          let (new_active, log1) = get_active_input fromstring net api (http_log_m s);
              s = s\<lparr>http_log_m := log1\<rparr>;
              (new_preview, log2) = get_preview_input fromstring net api (http_log_m s);
              s = s\<lparr>http_log_m := log2\<rparr>
          in if new_active \<noteq> active_input_m s \<or> new_preview \<noteq> preview_input_m s
             then load_inputs_m fromstring net
                    (s\<lparr>active_input_m := new_active, preview_input_m := new_preview\<rparr>)
             else s)"


section \<open>Sample documents and networks\<close>

text \<open>
  Two state documents, a parser that knows the bodies \<^verbatim>\<open>A\<close> and \<^verbatim>\<open>B\<close> and rejects every
  other text, and three networks: one that gives the same outcome to every request, one
  that follows a script (the n-th request gets the n-th outcome, and the link is down once
  the script is over), and one that refuses a single URL.
\<close>

definition doc_A :: Element where
  "doc_A =
     Element ''vmix'' [] None
       [ Element ''version'' [] (Some ''27.0.0.49'') [],
         Element ''inputs'' [] None
           [ Element ''input''
               [(''key'', ''k1''), (''number'', ''1''), (''type'', ''Capture''), (''title'', ''Cam 1''),
                (''shortTitle'', ''Cam''), (''state'', ''Running''), (''position'', ''0''),
                (''duration'', ''0'')] (Some ''Cam 1'') [],
             Element ''input'' [(''number'', ''2'')] None [],
             Element ''input''
               [(''key'', ''k3''), (''number'', ''3''), (''type'', ''Video''), (''title'', ''Clip''),
                (''state'', ''Paused''), (''position'', ''10''), (''duration'', ''1000'')]
               (Some ''Clip'') [] ],
         Element ''preview'' [] (Some ''3'') [],
         Element ''active'' [] (Some ''1'') [] ]"

definition doc_B :: Element where
  "doc_B =
     Element ''vmix'' [] None
       [ Element ''inputs'' [] None
           [ Element ''input'' [(''number'', ''7''), (''title'', ''Logo'')] (Some ''Logo'') [] ],
         Element ''preview'' [] (Some ''7'') [],
         Element ''active'' [] (Some ''7'') [] ]"

definition fromstring_AB :: parser where
  "fromstring_AB s = (if s = ''A'' then Some doc_A else if s = ''B'' then Some doc_B else None)"

definition net_const :: "outcome \<Rightarrow> network" where
  "net_const r = (\<lambda>log url. r)"

definition net_script :: "outcome list \<Rightarrow> network" where
  "net_script rs = (\<lambda>log url. if length log < length rs then rs ! length log else ConnectionError)"

definition net_refusing :: "string \<Rightarrow> outcome \<Rightarrow> network" where
  "net_refusing bad r = (\<lambda>log url. if url = bad then Response 500 '''' else r)"


text \<open>
  A network that answers the first five requests with the document \<^verbatim>\<open>A\<close> and the next
  two with \<^verbatim>\<open>B\<close> (the mixer changes while a reload is under way), and one that answers
  four requests with \<^verbatim>\<open>A\<close>, accepts the fifth and is down from the sixth on.
\<close>

definition net_AB :: network where
  "net_AB = net_script [Response 200 ''A'', Response 200 ''A'', Response 200 ''A'', Response 200 ''A'',
                        Response 200 ''A'', Response 200 ''B'', Response 200 ''B'']"

definition net_ftb :: network where
  "net_ftb = net_script [Response 200 ''A'', Response 200 ''A'', Response 200 ''A'', Response 200 ''A'',
                         Response 200 '''', ConnectionError]"




section \<open>Notions used in the statements\<close>

text \<open>
  The number of \<^verbatim>\<open>input\<close> elements under the \<^verbatim>\<open>inputs\<close> elements of a document, counted
  without \<open>findall\<close>.
\<close>

definition count_inputs :: "Element \<Rightarrow> nat" where
  "count_inputs root =
     sum_list (map (\<lambda>i. length (filter (\<lambda>c. tag c = ''input'') (children i)))
                   (filter (\<lambda>c. tag c = ''inputs'') (children root)))"

text \<open>The text of the first top-level element with a given tag, if there is one.\<close>

definition element_text :: "Element \<Rightarrow> string \<Rightarrow> string option" where
  "element_text root name = (case find_child root name of Some elem \<Rightarrow> etext elem | None \<Rightarrow> None)"

text \<open>
  A controller state that shows one snapshot: its tiles, its active input and its preview
  input are the ones of that document.
\<close>

definition from_snapshot :: "Element \<Rightarrow> VMixController \<Rightarrow> bool" where
  "from_snapshot root s =
     (input_tiles s = build_tiles (map make_input_data (findall root ''inputs'' ''input'')) []
      \<and> active_input s = element_text root ''active''
      \<and> preview_input s = element_text root ''preview'')"

definition from_snapshot_m :: "Element \<Rightarrow> VMixControllerMobile \<Rightarrow> bool" where
  "from_snapshot_m root s =
     (inputs_m s = map make_input_data_m (findall root ''inputs'' ''input'')
      \<and> active_input_m s = element_text root ''active''
      \<and> preview_input_m s = element_text root ''preview'')"

text \<open>
  A request for the state document that fails: the call raises, the status is not 200,
  the body is empty, or the body does not parse.
\<close>

definition failed_fetch :: "parser \<Rightarrow> outcome \<Rightarrow> bool" where
  "failed_fetch fromstring r =
     (case r of
        Response status_code body \<Rightarrow> status_code \<noteq> 200 \<or> body = [] \<or> fromstring body = None
      | _ \<Rightarrow> True)"

text \<open>Whether the mixer accepts a command: the answer has status 200.\<close>

definition accepted :: "outcome \<Rightarrow> bool" where
  "accepted r = (case r of Response status_code body \<Rightarrow> status_code = 200 | _ \<Rightarrow> False)"

text \<open>
  The states used as examples: each controller after connecting to a mixer at
  10.0.0.5:8088 that answers every request with the document \<^verbatim>\<open>A\<close>.
\<close>

definition api_5 :: vMixAPI where
  "api_5 = vMixAPI_init ''10.0.0.5'' ''8088''"

definition desk_A :: VMixController where
  "desk_A = connect_to_vmix fromstring_AB (net_const (Response 200 ''A'')) ''10.0.0.5'' ''8088''
              VMixController_init"

definition mobile_A :: VMixControllerMobile where
  "mobile_A = connect_to_vmix_m fromstring_AB (net_const (Response 200 ''A'')) ''10.0.0.5'' ''8088''
                VMixControllerMobile_init"





section \<open>Facts about the API client\<close>

text \<open>
  A status-200 answer is handed on as it is; every request for the state document goes to
  the same URL and is recorded.
\<close>

lemma get_xml_data_ok:
  "net log (base_url api @ ''/'') = Response 200 body \<Longrightarrow>
   get_xml_data net api log = (Some body, log @ [base_url api @ ''/''])"
  by (simp add: get_xml_data_def requests_get_def)

lemma get_xml_data_log: "snd (get_xml_data net api log) = log @ [base_url api @ ''/'']"
  by (simp add: get_xml_data_def requests_get_def Let_def split: outcome.splits)

lemma get_element_text_log:
  "snd (get_element_text name fromstring net api log) = log @ [base_url api @ ''/'']"
  using get_xml_data_log [of net api log]
  by (cases "get_xml_data net api log")
     (simp add: get_element_text_def split: option.splits)

lemma get_active_input_log:
  "snd (get_active_input fromstring net api log) = log @ [base_url api @ ''/'']"
  by (simp add: get_active_input_def get_element_text_log)

lemma get_preview_input_log:
  "snd (get_preview_input fromstring net api log) = log @ [base_url api @ ''/'']"
  by (simp add: get_preview_input_def get_element_text_log)

lemma get_inputs_log:
  "snd (get_inputs fromstring net api log) = log @ [base_url api @ ''/'']"
  using get_xml_data_log [of net api log]
  by (cases "get_xml_data net api log")
     (simp add: get_inputs_def split: option.splits)

lemma get_inputs_m_log:
  "snd (get_inputs_m fromstring net api log) = log @ [base_url api @ ''/'']"
  using get_xml_data_log [of net api log]
  by (cases "get_xml_data net api log")
     (simp add: get_inputs_m_def split: option.splits)

text \<open>
  What the three decoding methods return once the document has arrived and parsed.
\<close>

lemma get_element_text_ok:
  assumes "net log (base_url api @ ''/'') = Response 200 body" "body \<noteq> []" "fromstring body = Some root"
  shows "fst (get_element_text name fromstring net api log) =
           (case find_child root name of Some elem \<Rightarrow> etext elem | None \<Rightarrow> None)"
  using assms by (simp add: get_element_text_def get_xml_data_ok split: option.splits)

lemma active_preview_ok:
  assumes "net log (base_url api @ ''/'') = Response 200 body" "body \<noteq> []" "fromstring body = Some root"
  shows "fst (get_active_input fromstring net api log) = element_text root ''active''"
    and "fst (get_preview_input fromstring net api log) = element_text root ''preview''"
  using assms
  by (simp_all add: get_active_input_def get_preview_input_def get_element_text_ok element_text_def)

lemma get_inputs_ok:
  assumes "net log (base_url api @ ''/'') = Response 200 body" "body \<noteq> []" "fromstring body = Some root"
  shows "fst (get_inputs fromstring net api log) = map make_input_data (findall root ''inputs'' ''input'')"
  using assms by (simp add: get_inputs_def get_xml_data_ok)

lemma get_inputs_m_ok:
  assumes "net log (base_url api @ ''/'') = Response 200 body" "body \<noteq> []" "fromstring body = Some root"
  shows "fst (get_inputs_m fromstring net api log) = map make_input_data_m (findall root ''inputs'' ''input'')"
  using assms by (simp add: get_inputs_m_def get_xml_data_ok)

lemma findall_length: "length (findall root ''inputs'' ''input'') = count_inputs root"
  by (simp add: findall_def count_inputs_def length_concat comp_def)

text \<open>
  A failed request makes each decoding method return its empty value.
\<close>

lemma failed_fetch_xml:
  assumes "failed_fetch fromstring (net log (base_url api @ ''/''))"
  shows "fst (get_element_text name fromstring net api log) = None"
    and "fst (get_inputs fromstring net api log) = []"
    and "fst (get_inputs_m fromstring net api log) = []"
  using assms
  by (auto simp add: failed_fetch_def get_element_text_def get_inputs_def get_inputs_m_def
        get_xml_data_def requests_get_def Let_def split: outcome.splits)

text \<open>
  The URL of a command without parameters and of a command with the parameter
  \<^verbatim>\<open>Input\<close>, and the result of sending it.
\<close>

lemma send_command_nil:
  "send_command net api c [] log =
     ((case net log (base_url api @ ''/?Function='' @ c) of
         Response status_code body \<Rightarrow> status_code = 200 | _ \<Rightarrow> False),
      log @ [base_url api @ ''/?Function='' @ c])"
  by (simp add: send_command_def requests_get_def Let_def split: outcome.splits)

lemma send_command_input:
  "send_command net api c [(''Input'', p)] log =
     ((case net log (base_url api @ ''/?Function='' @ c @ ''&Input='' @ p) of
         Response status_code body \<Rightarrow> status_code = 200 | _ \<Rightarrow> False),
      log @ [base_url api @ ''/?Function='' @ c @ ''&Input='' @ p])"
  by (simp add: send_command_def requests_get_def Let_def split: outcome.splits)


section \<open>Facts about the controllers\<close>

text \<open>
  The methods written as one record update each, with the requests they make.
\<close>

lemma update_states_unfold:
  assumes "vmix_api s = Some api"
  shows "update_states fromstring net s =
     (let new_active = fst (get_active_input fromstring net api (http_log s));
          new_preview = fst (get_preview_input fromstring net api (http_log s @ [base_url api @ ''/'']));
          s' = s\<lparr>http_log := http_log s @ [base_url api @ ''/'', base_url api @ ''/'']\<rparr>
      in if new_active \<noteq> active_input s \<or> new_preview \<noteq> preview_input s
         then s'\<lparr>active_input := new_active, preview_input := new_preview,
                 ui := ui s @ [UpdateTileStyles, UpdateInputInfo]\<rparr>
         else s')"
proof -
  obtain a l1 where a: "get_active_input fromstring net api (http_log s) = (a, l1)"
    by (cases "get_active_input fromstring net api (http_log s)")
  have l1: "l1 = http_log s @ [base_url api @ ''/'']"
    using get_active_input_log [of fromstring net api "http_log s"] a by simp
  obtain p l2 where p: "get_preview_input fromstring net api l1 = (p, l2)"
    by (cases "get_preview_input fromstring net api l1")
  have l2: "l2 = l1 @ [base_url api @ ''/'']"
    using get_preview_input_log [of fromstring net api l1] p by simp
  show ?thesis
    using assms a p l1 l2
    by (simp add: update_states_def Let_def emit_def)
qed

lemma load_inputs_unfold:
  assumes "vmix_api s = Some api"
  shows "load_inputs fromstring net s =
     (let u = base_url api @ ''/'';
          inputs = fst (get_inputs fromstring net api (http_log s))
      in if inputs = []
         then s\<lparr>input_tiles := [], http_log := http_log s @ [u],
                ui := ui s @ [ShowMessage CrossMark ''Failed to get inputs list'']\<rparr>
         else s\<lparr>input_tiles := build_tiles inputs [],
                active_input := fst (get_active_input fromstring net api (http_log s @ [u])),
                preview_input := fst (get_preview_input fromstring net api (http_log s @ [u, u])),
                http_log := http_log s @ [u, u, u],
                ui := ui s @ [UpdateInputInfo,
                              ShowMessage CheckMark (''Loaded inputs: '' @ str_nat (length inputs))]\<rparr>)"
proof -
  obtain i l1 where i: "get_inputs fromstring net api (http_log s) = (i, l1)"
    by (cases "get_inputs fromstring net api (http_log s)")
  have l1: "l1 = http_log s @ [base_url api @ ''/'']"
    using get_inputs_log [of fromstring net api "http_log s"] i by simp
  obtain a l2 where a: "get_active_input fromstring net api l1 = (a, l2)"
    by (cases "get_active_input fromstring net api l1")
  have l2: "l2 = l1 @ [base_url api @ ''/'']"
    using get_active_input_log [of fromstring net api l1] a by simp
  obtain p l3 where p: "get_preview_input fromstring net api l2 = (p, l3)"
    by (cases "get_preview_input fromstring net api l2")
  have l3: "l3 = l2 @ [base_url api @ ''/'']"
    using get_preview_input_log [of fromstring net api l2] p by simp
  show ?thesis
    using assms i a p l1 l2 l3
    by (simp add: load_inputs_def Let_def showMessage_def emit_def)
qed

lemma load_inputs_m_unfold:
  assumes "vmix_api_m s = Some api"
  shows "load_inputs_m fromstring net s =
     s\<lparr>inputs_m := fst (get_inputs_m fromstring net api (http_log_m s)),
       active_input_m := fst (get_active_input fromstring net api (http_log_m s @ [base_url api @ ''/''])),
       preview_input_m := fst (get_preview_input fromstring net api
                                 (http_log_m s @ [base_url api @ ''/'', base_url api @ ''/''])),
       http_log_m := http_log_m s @ [base_url api @ ''/'', base_url api @ ''/'', base_url api @ ''/'']\<rparr>"
proof -
  obtain i l1 where i: "get_inputs_m fromstring net api (http_log_m s) = (i, l1)"
    by (cases "get_inputs_m fromstring net api (http_log_m s)")
  have l1: "l1 = http_log_m s @ [base_url api @ ''/'']"
    using get_inputs_m_log [of fromstring net api "http_log_m s"] i by simp
  obtain a l2 where a: "get_active_input fromstring net api l1 = (a, l2)"
    by (cases "get_active_input fromstring net api l1")
  have l2: "l2 = l1 @ [base_url api @ ''/'']"
    using get_active_input_log [of fromstring net api l1] a by simp
  obtain p l3 where p: "get_preview_input fromstring net api l2 = (p, l3)"
    by (cases "get_preview_input fromstring net api l2")
  have l3: "l3 = l2 @ [base_url api @ ''/'']"
    using get_preview_input_log [of fromstring net api l2] p by simp
  show ?thesis
    using assms i a p l1 l2 l3
    by (simp add: load_inputs_m_def Let_def)
qed





text \<open>
  The loop of \<^verbatim>\<open>remove_overlay\<close>, by induction on the layers still to visit.
\<close>

lemma remove_overlay_loop_log:
  "http_log (remove_overlay_loop net api layers s) =
     http_log s @
       map (\<lambda>layer. base_url api @ ''/?Function=OverlayInput'' @ str_nat layer @ ''Out'') layers"
  by (induction layers arbitrary: s) (simp_all add: send_command_nil)

lemma remove_overlay_loop_ui: "ui (remove_overlay_loop net api layers s) = ui s"
  by (induction layers arbitrary: s) (simp_all add: send_command_nil)

lemma remove_overlay_loop_api: "vmix_api (remove_overlay_loop net api layers s) = vmix_api s"
  by (induction layers arbitrary: s) (simp_all add: send_command_nil)

lemma remove_overlay_loop_overlays:
  "active_overlays (remove_overlay_loop net api layers s) layer =
     (if layer \<in> set layers then Some False else active_overlays s layer)"
  by (induction layers arbitrary: s) (simp_all add: send_command_nil)

lemma layers_1_5: "[1..<5] = [1, 2, 3, 4]"
  by (simp add: upt_rec)

lemma str_nat_digits:
  "str_nat (Suc 0) = ''1''" "str_nat 2 = ''2''" "str_nat 3 = ''3''" "str_nat 4 = ''4''"
  by (simp_all add: digit_def str_nat.simps)

text \<open>
  The desktop \<^verbatim>\<open>quick_play\<close>: without a preview input nothing is sent; otherwise
  \<^verbatim>\<open>Fade\<close> is sent, \<^verbatim>\<open>Cut\<close> is sent once if the fade is refused, the active input
  becomes the preview input when either is accepted, and the error is shown only when
  both are refused.
\<close>

lemma quick_play_desktop:
  assumes "vmix_api s = Some api"
  shows "(\<not> truthy (preview_input s) \<longrightarrow>
            quick_play net s = showMessage CrossMark ''Select input in preview first!'' s)
       \<and> (\<forall>p. preview_input s = Some p \<and> p \<noteq> [] \<longrightarrow>
            (let fade = base_url api @ ''/?Function=Fade&Input='' @ p;
                 cut = base_url api @ ''/?Function=Cut&Input='' @ p;
                 fade_ok = fst (send_command net api ''Fade'' [(''Input'', p)] (http_log s));
                 cut_ok = fst (send_command net api ''Cut'' [(''Input'', p)] (http_log s @ [fade]));
                 s' = quick_play net s
             in (fade_ok \<longrightarrow>
                   http_log s' = http_log s @ [fade] \<and> active_input s' = Some p
                 \<and> ui s' = ui s @ [UpdateTileStyles, UpdateInputInfo, FlashButton,
                                    ShowMessage Arrows (''Smooth transition to V'' @ p)])
              \<and> (\<not> fade_ok \<and> cut_ok \<longrightarrow>
                   http_log s' = http_log s @ [fade, cut] \<and> active_input s' = Some p
                 \<and> ui s' = ui s @ [UpdateTileStyles, UpdateInputInfo, FlashButton,
                                    ShowMessage CheckMark (''Cut transition to V'' @ p)])
              \<and> (\<not> fade_ok \<and> \<not> cut_ok \<longrightarrow>
                   http_log s' = http_log s @ [fade, cut] \<and> active_input s' = active_input s
                 \<and> ui s' = ui s @ [ShowMessage CrossMark ''Transition error''])))"
  using assms
  by (auto simp add: quick_play_def truthy_def send_command_input Let_def showMessage_def emit_def
        split: option.splits)






section \<open>Facts about the examples\<close>

text \<open>
  The example documents, networks and states, evaluated once.
\<close>

lemma api_5_url: "base_url api_5 = ''http://10.0.0.5:8088/api''"
  by (simp add: api_5_def vMixAPI_init_def)

lemma api_m_url: "base_url (vMixAPI_init_m ''10.0.0.5'' ''8088'') = ''http://10.0.0.5:8088/api''"
  by (simp add: vMixAPI_init_m_def)

lemma findall_doc_A:
  "findall doc_A ''inputs'' ''input'' =
     [ Element ''input''
               [(''key'', ''k1''), (''number'', ''1''), (''type'', ''Capture''), (''title'', ''Cam 1''),
                (''shortTitle'', ''Cam''), (''state'', ''Running''), (''position'', ''0''),
                (''duration'', ''0'')] (Some ''Cam 1'') [],
       Element ''input'' [(''number'', ''2'')] None [],
       Element ''input''
               [(''key'', ''k3''), (''number'', ''3''), (''type'', ''Video''), (''title'', ''Clip''),
                (''state'', ''Paused''), (''position'', ''10''), (''duration'', ''1000'')]
               (Some ''Clip'') [] ]"
  by (simp add: findall_def doc_A_def)

lemma findall_doc_B:
  "findall doc_B ''inputs'' ''input'' =
     [ Element ''input'' [(''number'', ''7''), (''title'', ''Logo'')] (Some ''Logo'') [] ]"
  by (simp add: findall_def doc_B_def)

lemma element_text_docs:
  "element_text doc_A ''active'' = Some ''1''" "element_text doc_A ''preview'' = Some ''3''"
  "element_text doc_B ''active'' = Some ''7''" "element_text doc_B ''preview'' = Some ''7''"
  by (simp_all add: element_text_def find_child_def doc_A_def doc_B_def)

lemma find_child_docs:
  "find_child doc_A ''active'' = Some (Element ''active'' [] (Some ''1'') [])"
  "find_child doc_A ''preview'' = Some (Element ''preview'' [] (Some ''3'') [])"
  by (simp_all add: find_child_def doc_A_def)

lemma fromstring_AB_simps:
  "fromstring_AB ''A'' = Some doc_A" "fromstring_AB ''B'' = Some doc_B"
  by (simp_all add: fromstring_AB_def)

lemma desk_A_eval:
  "desk_A =
     \<lparr> vmix_api = Some \<lparr>base_url = ''http://10.0.0.5:8088/api'', timeout = 5\<rparr>,
       input_tiles = build_tiles (map make_input_data (findall doc_A ''inputs'' ''input'')) [],
       active_input = Some ''1'', preview_input = Some ''3'',
       ftb_timer = False, ftb_active = False,
       active_overlays = [1 \<mapsto> False, 2 \<mapsto> False, 3 \<mapsto> False, 4 \<mapsto> False],
       ui = [ShowMessage NoIcon ''Connecting to 10.0.0.5:8088...'',
             ShowMessage CheckMark ''Connected to vMix 10.0.0.5:8088'',
             UpdateInputInfo,
             ShowMessage CheckMark ''Loaded inputs: 3''],
       http_log = [''http://10.0.0.5:8088/api/'', ''http://10.0.0.5:8088/api/'',
                   ''http://10.0.0.5:8088/api/'', ''http://10.0.0.5:8088/api/''] \<rparr>"
  by (simp add: desk_A_def connect_to_vmix_def load_inputs_def VMixController_init_def
        vMixAPI_init_def get_xml_data_def requests_get_def net_const_def truthy_def
        showMessage_def emit_def get_inputs_def get_active_input_def get_preview_input_def
        get_element_text_def fromstring_AB_def doc_A_def findall_def find_child_def
        digit_def str_nat.simps Let_def)

lemma desk_A_fields:
  "vmix_api desk_A = Some api_5" "active_input desk_A = Some ''1''" "preview_input desk_A = Some ''3''"
  "ftb_active desk_A = False" "ftb_timer desk_A = False"
  "http_log desk_A = [''http://10.0.0.5:8088/api/'', ''http://10.0.0.5:8088/api/'',
                      ''http://10.0.0.5:8088/api/'', ''http://10.0.0.5:8088/api/'']"
  "ui desk_A = [ShowMessage NoIcon ''Connecting to 10.0.0.5:8088...'',
             ShowMessage CheckMark ''Connected to vMix 10.0.0.5:8088'',
             UpdateInputInfo,
             ShowMessage CheckMark ''Loaded inputs: 3'']"
  "active_overlays desk_A = [1 \<mapsto> False, 2 \<mapsto> False, 3 \<mapsto> False, 4 \<mapsto> False]"
  "input_tiles desk_A = build_tiles (map make_input_data (findall doc_A ''inputs'' ''input'')) []"
  by (simp_all add: desk_A_eval api_5_def vMixAPI_init_def)

lemma mobile_A_eval:
  "mobile_A =
     \<lparr> vmix_api_m = Some \<lparr>base_url = ''http://10.0.0.5:8088/api'', timeout = 2\<rparr>,
       inputs_m = map make_input_data_m (findall doc_A ''inputs'' ''input''),
       active_input_m = Some ''1'', preview_input_m = Some ''3'',
       ftb_active_m = False, status_text = ''Connected to 10.0.0.5:8088'', connected = True,
       http_log_m = [''http://10.0.0.5:8088/api/'', ''http://10.0.0.5:8088/api/'',
                     ''http://10.0.0.5:8088/api/'', ''http://10.0.0.5:8088/api/''] \<rparr>"
  by (simp add: mobile_A_def connect_to_vmix_m_def load_inputs_m_def VMixControllerMobile_init_def
        vMixAPI_init_m_def get_xml_data_def requests_get_def net_const_def truthy_def
        get_inputs_m_def get_active_input_def get_preview_input_def
        get_element_text_def fromstring_AB_def doc_A_def findall_def find_child_def Let_def)

lemma mobile_A_fields:
  "vmix_api_m mobile_A = Some (vMixAPI_init_m ''10.0.0.5'' ''8088'')"
  "active_input_m mobile_A = Some ''1''" "preview_input_m mobile_A = Some ''3''"
  "ftb_active_m mobile_A = False"
  "http_log_m mobile_A = [''http://10.0.0.5:8088/api/'', ''http://10.0.0.5:8088/api/'',
                      ''http://10.0.0.5:8088/api/'', ''http://10.0.0.5:8088/api/'']"
  "inputs_m mobile_A = map make_input_data_m (findall doc_A ''inputs'' ''input'')"
  by (simp_all add: mobile_A_eval vMixAPI_init_m_def)



lemma net_AB_answers:
  "net_AB [''http://10.0.0.5:8088/api/'', ''http://10.0.0.5:8088/api/'',
           ''http://10.0.0.5:8088/api/'', ''http://10.0.0.5:8088/api/'']
      ''http://10.0.0.5:8088/api/'' = Response 200 ''A''"
  "net_AB [''http://10.0.0.5:8088/api/'', ''http://10.0.0.5:8088/api/'',
           ''http://10.0.0.5:8088/api/'', ''http://10.0.0.5:8088/api/'',
           ''http://10.0.0.5:8088/api/'']
      ''http://10.0.0.5:8088/api/'' = Response 200 ''B''"
  "net_AB [''http://10.0.0.5:8088/api/'', ''http://10.0.0.5:8088/api/'',
           ''http://10.0.0.5:8088/api/'', ''http://10.0.0.5:8088/api/'',
           ''http://10.0.0.5:8088/api/'', ''http://10.0.0.5:8088/api/'']
      ''http://10.0.0.5:8088/api/'' = Response 200 ''B''"
  by (simp_all add: net_AB_def net_script_def)



lemma tiles_doc_A:
  "map fst (build_tiles (map make_input_data (findall doc_A ''inputs'' ''input'')) []) =
     [Some ''1'', Some ''2'', Some ''3'']"
  by (simp add: findall_doc_A make_input_data_def get_def)

lemma tiles_doc_B:
  "map fst (build_tiles (map make_input_data (findall doc_B ''inputs'' ''input'')) []) = [Some ''7'']"
  by (simp add: findall_doc_B make_input_data_def get_def)

lemma load_inputs_net_AB:
  "load_inputs fromstring_AB net_AB desk_A =
     desk_A\<lparr>active_input := Some ''7'', preview_input := Some ''7'',
            http_log := http_log desk_A @ [''http://10.0.0.5:8088/api/'', ''http://10.0.0.5:8088/api/'',
                                          ''http://10.0.0.5:8088/api/''],
            ui := ui desk_A @ [UpdateInputInfo, ShowMessage CheckMark ''Loaded inputs: 3'']\<rparr>"
proof -
  have v: "vmix_api desk_A = Some api_5" by (simp add: desk_A_fields)
  have i: "fst (get_inputs fromstring_AB net_AB api_5
                  [''http://10.0.0.5:8088/api/'', ''http://10.0.0.5:8088/api/'',
                   ''http://10.0.0.5:8088/api/'', ''http://10.0.0.5:8088/api/'']) =
             map make_input_data (findall doc_A ''inputs'' ''input'')"
    using net_AB_answers(1) by (simp add: get_inputs_ok api_5_url fromstring_AB_simps)
  have a: "fst (get_active_input fromstring_AB net_AB api_5
                  [''http://10.0.0.5:8088/api/'', ''http://10.0.0.5:8088/api/'',
                   ''http://10.0.0.5:8088/api/'', ''http://10.0.0.5:8088/api/'',
                   ''http://10.0.0.5:8088/api/'']) = Some ''7''"
    using net_AB_answers(2)
    by (simp add: active_preview_ok(1) [where body = "''B''" and root = doc_B]
          api_5_url fromstring_AB_simps element_text_docs)
  have p: "fst (get_preview_input fromstring_AB net_AB api_5
                  [''http://10.0.0.5:8088/api/'', ''http://10.0.0.5:8088/api/'',
                   ''http://10.0.0.5:8088/api/'', ''http://10.0.0.5:8088/api/'',
                   ''http://10.0.0.5:8088/api/'', ''http://10.0.0.5:8088/api/'']) = Some ''7''"
    using net_AB_answers(3)
    by (simp add: active_preview_ok(2) [where body = "''B''" and root = doc_B]
          api_5_url fromstring_AB_simps element_text_docs)
  have n: "findall doc_A ''inputs'' ''input'' \<noteq> []" by (simp add: findall_doc_A)
  have l: "str_nat (length (findall doc_A ''inputs'' ''input'')) = ''3''"
    by (simp add: findall_doc_A str_nat.simps digit_def)
  show ?thesis
    using n
    by (simp add: load_inputs_unfold [OF v] i a p l api_5_url Let_def desk_A_fields)
qed


section \<open>The claims\<close>

text \<open>
  C8 (as amended). When the state document arrives and parses, \<^verbatim>\<open>get_inputs\<close> of
  either client returns one record for each \<^verbatim>\<open>input\<close> element under \<^verbatim>\<open>inputs\<close>, in
  document order: the list has as many entries as the document has such elements, and the
  i-th entry is built from the i-th element. In both clients a missing \<^verbatim>\<open>title\<close> becomes
  \<^verbatim>\<open>Input\<close> followed by the number. On the desktop a missing \<^verbatim>\<open>type\<close> becomes
  \<^verbatim>\<open>Unknown\<close> and a missing \<^verbatim>\<open>duration\<close> or \<^verbatim>\<open>position\<close> becomes \<^verbatim>\<open>0\<close>;
  attributes that are present are copied. The mobile client's dictionary has the three
  entries number, title and short title, and none for type, duration or position.
\<close>

theorem get_inputs_decodes:
  assumes "net log (base_url api @ ''/'') = Response 200 body"
      and "body \<noteq> []"
      and "fromstring body = Some root"
  shows "length (fst (get_inputs fromstring net api log)) = count_inputs root
       \<and> length (fst (get_inputs_m fromstring net api log)) = count_inputs root
       \<and> (\<forall>i < count_inputs root.
            let e = findall root ''inputs'' ''input'' ! i;
                d = fst (get_inputs fromstring net api log) ! i;
                m = fst (get_inputs_m fromstring net api log) ! i
            in number d = get e ''number'' \<and> number_m m = get e ''number''
             \<and> (get e ''title'' = None \<longrightarrow>
                   title d = ''Input '' @ str_opt (number d) \<and> title_m m = ''Input '' @ str_opt (number_m m))
             \<and> (\<forall>t. get e ''title'' = Some t \<longrightarrow> title d = t \<and> title_m m = t)
             \<and> (get e ''type'' = None \<longrightarrow> input_type d = ''Unknown'')
             \<and> (\<forall>t. get e ''type'' = Some t \<longrightarrow> input_type d = t)
             \<and> (get e ''duration'' = None \<longrightarrow> duration d = ''0'')
             \<and> (\<forall>t. get e ''duration'' = Some t \<longrightarrow> duration d = t)
             \<and> (get e ''position'' = None \<longrightarrow> position d = ''0'')
             \<and> (\<forall>t. get e ''position'' = Some t \<longrightarrow> position d = t)
             \<and> map_of (as_dict d) ''type'' = Some (Some (input_type d))
             \<and> map_of (as_dict d) ''duration'' = Some (Some (duration d))
             \<and> map_of (as_dict d) ''position'' = Some (Some (position d))
             \<and> map fst (as_dict d) =
                 [''number'', ''title'', ''type'', ''state'', ''duration'', ''position'',
                  ''short_title'', ''key'']
             \<and> map fst (as_dict_m m) = [''number'', ''title'', ''short_title'']
             \<and> map_of (as_dict_m m) ''type'' = None
             \<and> map_of (as_dict_m m) ''duration'' = None
             \<and> map_of (as_dict_m m) ''position'' = None)"
proof -
  have d: "fst (get_inputs fromstring net api log) = map make_input_data (findall root ''inputs'' ''input'')"
    using assms by (simp add: get_inputs_ok)
  have m: "fst (get_inputs_m fromstring net api log) = map make_input_data_m (findall root ''inputs'' ''input'')"
    using assms by (simp add: get_inputs_m_ok)
  show ?thesis
    unfolding d m
    by (simp add: findall_length Let_def make_input_data_def make_input_data_m_def
          get_default_def get_def as_dict_def as_dict_m_def)
qed

text \<open>
  C8 as stated fails on the mobile client: the second input of the document \<^verbatim>\<open>A\<close> has no
  type, duration or position, and the dictionary the mobile decoder builds for it has no
  entry under these keys, so none of the three defaults is there.
\<close>

theorem get_inputs_m_has_no_type:
  "get (findall doc_A ''inputs'' ''input'' ! 1) ''type'' = None
   \<and> get (findall doc_A ''inputs'' ''input'' ! 1) ''duration'' = None
   \<and> get (findall doc_A ''inputs'' ''input'' ! 1) ''position'' = None
   \<and> map_of (as_dict_m (fst (get_inputs_m fromstring_AB (net_const (Response 200 ''A'')) api_5 []) ! 1))
        ''type'' \<noteq> Some (Some ''Unknown'')
   \<and> map_of (as_dict_m (fst (get_inputs_m fromstring_AB (net_const (Response 200 ''A'')) api_5 []) ! 1))
        ''duration'' \<noteq> Some (Some ''0'')
   \<and> map_of (as_dict_m (fst (get_inputs_m fromstring_AB (net_const (Response 200 ''A'')) api_5 []) ! 1))
        ''position'' \<noteq> Some (Some ''0'')
   \<and> as_dict_m (fst (get_inputs_m fromstring_AB (net_const (Response 200 ''A'')) api_5 []) ! 1) =
       [(''number'', Some ''2''), (''title'', Some ''Input 2''), (''short_title'', Some '''')]"
proof -
  have m: "fst (get_inputs_m fromstring_AB (net_const (Response 200 ''A'')) api_5 []) =
             map make_input_data_m (findall doc_A ''inputs'' ''input'')"
    by (rule get_inputs_m_ok [where body = "''A''"]) (simp_all add: net_const_def fromstring_AB_simps)
  show ?thesis
    unfolding m
    by (simp add: findall_doc_A get_def get_default_def make_input_data_m_def as_dict_m_def str_opt_def)
qed

text \<open>
  The document \<^verbatim>\<open>A\<close>: three inputs, the second with a number only.
\<close>

theorem get_inputs_decodes_witness:
  "net_const (Response 200 ''A'') [] (base_url api_5 @ ''/'') = Response 200 ''A''
   \<and> ''A'' \<noteq> [] \<and> fromstring_AB ''A'' = Some doc_A
   \<and> count_inputs doc_A = 3
   \<and> length (fst (get_inputs fromstring_AB (net_const (Response 200 ''A'')) api_5 [])) = 3
   \<and> length (fst (get_inputs_m fromstring_AB (net_const (Response 200 ''A'')) api_5 [])) = 3
   \<and> get (findall doc_A ''inputs'' ''input'' ! 1) ''title'' = None
   \<and> title (fst (get_inputs fromstring_AB (net_const (Response 200 ''A'')) api_5 []) ! 1) = ''Input 2''
   \<and> title_m (fst (get_inputs_m fromstring_AB (net_const (Response 200 ''A'')) api_5 []) ! 1) = ''Input 2''
   \<and> input_type (fst (get_inputs fromstring_AB (net_const (Response 200 ''A'')) api_5 []) ! 1) = ''Unknown''
   \<and> duration (fst (get_inputs fromstring_AB (net_const (Response 200 ''A'')) api_5 []) ! 1) = ''0''
   \<and> position (fst (get_inputs fromstring_AB (net_const (Response 200 ''A'')) api_5 []) ! 1) = ''0''
   \<and> map_of (as_dict (fst (get_inputs fromstring_AB (net_const (Response 200 ''A'')) api_5 []) ! 1))
        ''type'' = Some (Some ''Unknown'')
   \<and> map fst (as_dict_m (fst (get_inputs_m fromstring_AB (net_const (Response 200 ''A'')) api_5 []) ! 1))
       = [''number'', ''title'', ''short_title'']"
proof -
  have h1: "net_const (Response 200 ''A'') [] (base_url api_5 @ ''/'') = Response 200 ''A''"
    by (simp add: net_const_def)
  have h2: "''A'' \<noteq> []" by simp
  have h3: "fromstring_AB ''A'' = Some doc_A" by (simp add: fromstring_AB_def)
  have c: "count_inputs doc_A = 3" by (simp add: count_inputs_def doc_A_def)
  have one: "1 < count_inputs doc_A" using c by simp
  have g: "get (findall doc_A ''inputs'' ''input'' ! 1) ''title'' = None"
          "get (findall doc_A ''inputs'' ''input'' ! 1) ''type'' = None"
          "get (findall doc_A ''inputs'' ''input'' ! 1) ''duration'' = None"
          "get (findall doc_A ''inputs'' ''input'' ! 1) ''position'' = None"
          "get (findall doc_A ''inputs'' ''input'' ! 1) ''number'' = Some ''2''"
    by (simp_all add: findall_doc_A get_def)
  note t = get_inputs_decodes [where net = "net_const (Response 200 ''A'')" and log = "[]" and api = api_5
                  and body = "''A''" and fromstring = fromstring_AB and root = doc_A, OF h1 h2 h3]
  from t have len: "length (fst (get_inputs fromstring_AB (net_const (Response 200 ''A'')) api_5 [])) = 3"
       "length (fst (get_inputs_m fromstring_AB (net_const (Response 200 ''A'')) api_5 [])) = 3"
    using c by simp_all
  have second:
    "title (fst (get_inputs fromstring_AB (net_const (Response 200 ''A'')) api_5 []) ! 1) = ''Input 2''
     \<and> title_m (fst (get_inputs_m fromstring_AB (net_const (Response 200 ''A'')) api_5 []) ! 1) = ''Input 2''
     \<and> input_type (fst (get_inputs fromstring_AB (net_const (Response 200 ''A'')) api_5 []) ! 1) = ''Unknown''
     \<and> duration (fst (get_inputs fromstring_AB (net_const (Response 200 ''A'')) api_5 []) ! 1) = ''0''
     \<and> position (fst (get_inputs fromstring_AB (net_const (Response 200 ''A'')) api_5 []) ! 1) = ''0''
     \<and> map_of (as_dict (fst (get_inputs fromstring_AB (net_const (Response 200 ''A'')) api_5 []) ! 1))
          ''type'' = Some (Some ''Unknown'')
     \<and> map fst (as_dict_m (fst (get_inputs_m fromstring_AB (net_const (Response 200 ''A'')) api_5 []) ! 1))
         = [''number'', ''title'', ''short_title'']"
    using t [THEN conjunct2, THEN conjunct2, THEN spec, of 1] one g
    by (simp add: Let_def str_opt_def)
  then show ?thesis using h1 h3 c len g(1) by simp
qed

text \<open>
  C9. When the state document arrives and parses, \<^verbatim>\<open>get_active_input\<close> returns the
  text of the top-level \<^verbatim>\<open>active\<close> element unchanged, whatever that text is (so in
  particular when it is the number of one of the inputs), and \<^verbatim>\<open>None\<close> when the
  document has no such element; \<^verbatim>\<open>get_preview_input\<close> does the same with the
  \<^verbatim>\<open>preview\<close> element.
\<close>

theorem active_preview_roundtrip:
  assumes "net log (base_url api @ ''/'') = Response 200 body"
      and "body \<noteq> []"
      and "fromstring body = Some root"
  shows "(\<forall>a t. find_child root ''active'' = Some a \<longrightarrow> etext a = Some t \<longrightarrow>
             fst (get_active_input fromstring net api log) = Some t)
       \<and> (find_child root ''active'' = None \<longrightarrow>
             fst (get_active_input fromstring net api log) = None)
       \<and> (\<forall>p t. find_child root ''preview'' = Some p \<longrightarrow> etext p = Some t \<longrightarrow>
             fst (get_preview_input fromstring net api log) = Some t)
       \<and> (find_child root ''preview'' = None \<longrightarrow>
             fst (get_preview_input fromstring net api log) = None)"
  using assms
  by (simp add: get_active_input_def get_preview_input_def get_element_text_ok)

text \<open>
  The document \<^verbatim>\<open>A\<close>, whose active element names input 1 and whose preview element
  names input 3, and a document with no element at all.
\<close>

theorem active_preview_roundtrip_witness:
  "net_const (Response 200 ''A'') [] (base_url api_5 @ ''/'') = Response 200 ''A''
   \<and> ''A'' \<noteq> [] \<and> fromstring_AB ''A'' = Some doc_A
   \<and> find_child doc_A ''active'' = Some (Element ''active'' [] (Some ''1'') [])
   \<and> Some ''1'' \<in> set (map number (fst (get_inputs fromstring_AB (net_const (Response 200 ''A'')) api_5 [])))
   \<and> fst (get_active_input fromstring_AB (net_const (Response 200 ''A'')) api_5 []) = Some ''1''
   \<and> find_child doc_A ''preview'' = Some (Element ''preview'' [] (Some ''3'') [])
   \<and> fst (get_preview_input fromstring_AB (net_const (Response 200 ''A'')) api_5 []) = Some ''3''
   \<and> find_child (Element ''vmix'' [] None []) ''active'' = None
   \<and> fst (get_active_input (\<lambda>s. Some (Element ''vmix'' [] None []))
             (net_const (Response 200 ''A'')) api_5 []) = None
   \<and> fst (get_preview_input (\<lambda>s. Some (Element ''vmix'' [] None []))
             (net_const (Response 200 ''A'')) api_5 []) = None"
proof -
  have h1: "net_const (Response 200 ''A'') [] (base_url api_5 @ ''/'') = Response 200 ''A''"
    by (simp add: net_const_def)
  have h2: "''A'' \<noteq> []" by simp
  have h3: "fromstring_AB ''A'' = Some doc_A" by (simp add: fromstring_AB_def)
  have h4: "(\<lambda>s. Some (Element ''vmix'' [] None [])) ''A'' = Some (Element ''vmix'' [] None [])"
    by simp
  have n: "find_child (Element ''vmix'' [] None []) ''active'' = None"
          "find_child (Element ''vmix'' [] None []) ''preview'' = None"
    by (simp_all add: find_child_def)
  have i: "Some ''1'' \<in> set (map number (fst (get_inputs fromstring_AB (net_const (Response 200 ''A'')) api_5 [])))"
    using h1 h3 by (simp add: get_inputs_ok findall_doc_A make_input_data_def get_def)
  from active_preview_roundtrip [where net = "net_const (Response 200 ''A'')" and log = "[]"
         and api = api_5 and body = "''A''" and fromstring = fromstring_AB and root = doc_A,
         OF h1 h2 h3]
       active_preview_roundtrip [where net = "net_const (Response 200 ''A'')" and log = "[]"
         and api = api_5 and body = "''A''" and fromstring = "\<lambda>s. Some (Element ''vmix'' [] None [])"
         and root = "Element ''vmix'' [] None []", OF h1 h2 h4]
       h1 h3 n i find_child_docs
  show ?thesis by simp
qed






text \<open>
  C6. \<^verbatim>\<open>remove_overlay\<close> on a connected desktop controller, whatever the network
  answers: the four commands \<^verbatim>\<open>OverlayInput1Out\<close> to \<^verbatim>\<open>OverlayInput4Out\<close> are sent,
  in this order and nothing else; afterwards the flag of each of the four layers is
  false; and the call ends with the message that all overlays were removed, never with
  an error.
\<close>

theorem remove_overlay_clears_all:
  assumes "vmix_api s = Some api"
  shows "http_log (remove_overlay net s) =
           http_log s @ [ base_url api @ ''/?Function=OverlayInput1Out'',
                          base_url api @ ''/?Function=OverlayInput2Out'',
                          base_url api @ ''/?Function=OverlayInput3Out'',
                          base_url api @ ''/?Function=OverlayInput4Out'' ]
       \<and> (\<forall>layer \<in> {1, 2, 3, 4}. active_overlays (remove_overlay net s) layer = Some False)
       \<and> ui (remove_overlay net s) =
           ui s @ [UpdateAllStyles, ShowMessage RemoveSign ''All overlays removed'']"
proof -
  have r: "remove_overlay net s =
             showMessage RemoveSign ''All overlays removed''
               (emit UpdateAllStyles (remove_overlay_loop net api [1, 2, 3, 4] s))"
    using assms unfolding remove_overlay_def layers_1_5 by simp
  show ?thesis
    unfolding r
    by (simp add: remove_overlay_loop_log remove_overlay_loop_ui remove_overlay_loop_overlays
          str_nat_digits showMessage_def emit_def del: remove_overlay_loop.simps)
qed

text \<open>
  Overlays on layers 1 and 3, and a mixer that refuses the command for layer 3 only.
\<close>

theorem remove_overlay_clears_all_witness:
  "vmix_api (desk_A\<lparr>active_overlays := [1 \<mapsto> True, 2 \<mapsto> False, 3 \<mapsto> True, 4 \<mapsto> False]\<rparr>) = Some api_5
   \<and> \<not> accepted (net_refusing ''http://10.0.0.5:8088/api/?Function=OverlayInput3Out'' (Response 200 '''')
                   [] ''http://10.0.0.5:8088/api/?Function=OverlayInput3Out'')
   \<and> http_log (remove_overlay
         (net_refusing ''http://10.0.0.5:8088/api/?Function=OverlayInput3Out'' (Response 200 ''''))
         (desk_A\<lparr>active_overlays := [1 \<mapsto> True, 2 \<mapsto> False, 3 \<mapsto> True, 4 \<mapsto> False]\<rparr>)) =
       http_log desk_A @ [''http://10.0.0.5:8088/api/?Function=OverlayInput1Out'',
                          ''http://10.0.0.5:8088/api/?Function=OverlayInput2Out'',
                          ''http://10.0.0.5:8088/api/?Function=OverlayInput3Out'',
                          ''http://10.0.0.5:8088/api/?Function=OverlayInput4Out'']
   \<and> active_overlays (remove_overlay
         (net_refusing ''http://10.0.0.5:8088/api/?Function=OverlayInput3Out'' (Response 200 ''''))
         (desk_A\<lparr>active_overlays := [1 \<mapsto> True, 2 \<mapsto> False, 3 \<mapsto> True, 4 \<mapsto> False]\<rparr>)) 1 = Some False
   \<and> active_overlays (remove_overlay
         (net_refusing ''http://10.0.0.5:8088/api/?Function=OverlayInput3Out'' (Response 200 ''''))
         (desk_A\<lparr>active_overlays := [1 \<mapsto> True, 2 \<mapsto> False, 3 \<mapsto> True, 4 \<mapsto> False]\<rparr>)) 2 = Some False
   \<and> active_overlays (remove_overlay
         (net_refusing ''http://10.0.0.5:8088/api/?Function=OverlayInput3Out'' (Response 200 ''''))
         (desk_A\<lparr>active_overlays := [1 \<mapsto> True, 2 \<mapsto> False, 3 \<mapsto> True, 4 \<mapsto> False]\<rparr>)) 3 = Some False
   \<and> active_overlays (remove_overlay
         (net_refusing ''http://10.0.0.5:8088/api/?Function=OverlayInput3Out'' (Response 200 ''''))
         (desk_A\<lparr>active_overlays := [1 \<mapsto> True, 2 \<mapsto> False, 3 \<mapsto> True, 4 \<mapsto> False]\<rparr>)) 4 = Some False
   \<and> ui (remove_overlay
         (net_refusing ''http://10.0.0.5:8088/api/?Function=OverlayInput3Out'' (Response 200 ''''))
         (desk_A\<lparr>active_overlays := [1 \<mapsto> True, 2 \<mapsto> False, 3 \<mapsto> True, 4 \<mapsto> False]\<rparr>)) =
       ui desk_A @ [UpdateAllStyles, ShowMessage RemoveSign ''All overlays removed'']"
proof -
  let ?s = "desk_A\<lparr>active_overlays := [1 \<mapsto> True, 2 \<mapsto> False, 3 \<mapsto> True, 4 \<mapsto> False]\<rparr>"
  have h: "vmix_api ?s = Some api_5" by (simp add: desk_A_fields)
  have r: "\<not> accepted (net_refusing ''http://10.0.0.5:8088/api/?Function=OverlayInput3Out'' (Response 200 '''')
                   [] ''http://10.0.0.5:8088/api/?Function=OverlayInput3Out'')"
    by (simp add: accepted_def net_refusing_def)
  from remove_overlay_clears_all [OF h,
         of "net_refusing ''http://10.0.0.5:8088/api/?Function=OverlayInput3Out'' (Response 200 '''')"]
       h r
  show ?thesis by (simp add: api_5_url)
qed



text \<open>
  C4 (as amended). \<^verbatim>\<open>load_inputs\<close> makes its requests one after the other. The mobile
  client always makes three: the inputs are decoded from the answer to the first, the
  active input from the answer to the second and the preview input from the answer to the
  third. The desktop does the same when the first answer lists at least one input; when
  it lists none (or the request fails) the desktop stops after that one request with the
  tiles cleared and the active and preview input as they were. The three answers may be
  three different documents. When they are the same document, the resulting state shows
  that one snapshot (on the desktop provided it lists an input).
\<close>

theorem load_inputs_three_fetches:
  assumes "vmix_api s = Some api" and "vmix_api_m m = Some api_m"
      and "base_url api_m = base_url api"
      and "http_log s = log" and "http_log_m m = log"
      and "u = base_url api @ ''/''"
  shows "(fst (get_inputs fromstring net api log) = [] \<longrightarrow>
            input_tiles (load_inputs fromstring net s) = []
          \<and> active_input (load_inputs fromstring net s) = active_input s
          \<and> preview_input (load_inputs fromstring net s) = preview_input s
          \<and> http_log (load_inputs fromstring net s) = log @ [u])
       \<and> (fst (get_inputs fromstring net api log) \<noteq> [] \<longrightarrow>
            input_tiles (load_inputs fromstring net s) =
              build_tiles (fst (get_inputs fromstring net api log)) []
          \<and> active_input (load_inputs fromstring net s) =
              fst (get_active_input fromstring net api (log @ [u]))
          \<and> preview_input (load_inputs fromstring net s) =
              fst (get_preview_input fromstring net api (log @ [u, u]))
          \<and> http_log (load_inputs fromstring net s) = log @ [u, u, u])
       \<and> inputs_m (load_inputs_m fromstring net m) = fst (get_inputs_m fromstring net api_m log)
       \<and> active_input_m (load_inputs_m fromstring net m) =
           fst (get_active_input fromstring net api_m (log @ [u]))
       \<and> preview_input_m (load_inputs_m fromstring net m) =
           fst (get_preview_input fromstring net api_m (log @ [u, u]))
       \<and> http_log_m (load_inputs_m fromstring net m) = log @ [u, u, u]
       \<and> (\<forall>body1 body2 body3 root1 root2 root3.
            net log u = Response 200 body1 \<and> body1 \<noteq> [] \<and> fromstring body1 = Some root1
          \<and> net (log @ [u]) u = Response 200 body2 \<and> body2 \<noteq> [] \<and> fromstring body2 = Some root2
          \<and> net (log @ [u, u]) u = Response 200 body3 \<and> body3 \<noteq> [] \<and> fromstring body3 = Some root3
          \<longrightarrow>
            (findall root1 ''inputs'' ''input'' \<noteq> [] \<longrightarrow>
               input_tiles (load_inputs fromstring net s) =
                 build_tiles (map make_input_data (findall root1 ''inputs'' ''input'')) []
             \<and> active_input (load_inputs fromstring net s) = element_text root2 ''active''
             \<and> preview_input (load_inputs fromstring net s) = element_text root3 ''preview'')
          \<and> (findall root1 ''inputs'' ''input'' = [] \<longrightarrow>
               input_tiles (load_inputs fromstring net s) = []
             \<and> active_input (load_inputs fromstring net s) = active_input s
             \<and> preview_input (load_inputs fromstring net s) = preview_input s
             \<and> http_log (load_inputs fromstring net s) = log @ [u])
          \<and> inputs_m (load_inputs_m fromstring net m) =
               map make_input_data_m (findall root1 ''inputs'' ''input'')
          \<and> active_input_m (load_inputs_m fromstring net m) = element_text root2 ''active''
          \<and> preview_input_m (load_inputs_m fromstring net m) = element_text root3 ''preview''
          \<and> (root2 = root1 \<and> root3 = root1 \<longrightarrow>
               from_snapshot_m root1 (load_inputs_m fromstring net m)
             \<and> (findall root1 ''inputs'' ''input'' \<noteq> [] \<longrightarrow>
                  from_snapshot root1 (load_inputs fromstring net s))))"
proof -
  have api_level:
    "(fst (get_inputs fromstring net api log) = [] \<longrightarrow>
            input_tiles (load_inputs fromstring net s) = []
          \<and> active_input (load_inputs fromstring net s) = active_input s
          \<and> preview_input (load_inputs fromstring net s) = preview_input s
          \<and> http_log (load_inputs fromstring net s) = log @ [u])
       \<and> (fst (get_inputs fromstring net api log) \<noteq> [] \<longrightarrow>
            input_tiles (load_inputs fromstring net s) =
              build_tiles (fst (get_inputs fromstring net api log)) []
          \<and> active_input (load_inputs fromstring net s) =
              fst (get_active_input fromstring net api (log @ [u]))
          \<and> preview_input (load_inputs fromstring net s) =
              fst (get_preview_input fromstring net api (log @ [u, u]))
          \<and> http_log (load_inputs fromstring net s) = log @ [u, u, u])"
    using assms(1,4,6) by (simp add: load_inputs_unfold Let_def)
  have mobile_level:
    "inputs_m (load_inputs_m fromstring net m) = fst (get_inputs_m fromstring net api_m log)
       \<and> active_input_m (load_inputs_m fromstring net m) =
           fst (get_active_input fromstring net api_m (log @ [u]))
       \<and> preview_input_m (load_inputs_m fromstring net m) =
           fst (get_preview_input fromstring net api_m (log @ [u, u]))
       \<and> http_log_m (load_inputs_m fromstring net m) = log @ [u, u, u]"
    using assms(2,3,5,6) by (simp add: load_inputs_m_unfold)
  have docs: "(findall root1 ''inputs'' ''input'' \<noteq> [] \<longrightarrow>
               input_tiles (load_inputs fromstring net s) =
                 build_tiles (map make_input_data (findall root1 ''inputs'' ''input'')) []
             \<and> active_input (load_inputs fromstring net s) = element_text root2 ''active''
             \<and> preview_input (load_inputs fromstring net s) = element_text root3 ''preview'')
          \<and> (findall root1 ''inputs'' ''input'' = [] \<longrightarrow>
               input_tiles (load_inputs fromstring net s) = []
             \<and> active_input (load_inputs fromstring net s) = active_input s
             \<and> preview_input (load_inputs fromstring net s) = preview_input s
             \<and> http_log (load_inputs fromstring net s) = log @ [u])
          \<and> inputs_m (load_inputs_m fromstring net m) =
               map make_input_data_m (findall root1 ''inputs'' ''input'')
          \<and> active_input_m (load_inputs_m fromstring net m) = element_text root2 ''active''
          \<and> preview_input_m (load_inputs_m fromstring net m) = element_text root3 ''preview''
          \<and> (root2 = root1 \<and> root3 = root1 \<longrightarrow>
               from_snapshot_m root1 (load_inputs_m fromstring net m)
             \<and> (findall root1 ''inputs'' ''input'' \<noteq> [] \<longrightarrow>
                  from_snapshot root1 (load_inputs fromstring net s)))"
    if h: "net log u = Response 200 body1" "body1 \<noteq> []" "fromstring body1 = Some root1"
          "net (log @ [u]) u = Response 200 body2" "body2 \<noteq> []" "fromstring body2 = Some root2"
          "net (log @ [u, u]) u = Response 200 body3" "body3 \<noteq> []" "fromstring body3 = Some root3"
    for body1 body2 body3 root1 root2 root3
  proof -
    have i: "fst (get_inputs fromstring net api log) = map make_input_data (findall root1 ''inputs'' ''input'')"
      using h(1-3) assms(6) by (simp add: get_inputs_ok)
    have im: "fst (get_inputs_m fromstring net api_m log) = map make_input_data_m (findall root1 ''inputs'' ''input'')"
      using h(1-3) assms(3,6) by (simp add: get_inputs_m_ok)
    have a: "fst (get_active_input fromstring net api (log @ [u])) = element_text root2 ''active''"
      using h(4-6) assms(6) active_preview_ok(1) [of net "log @ [u]" api body2 fromstring root2] by simp
    have p: "fst (get_preview_input fromstring net api (log @ [u, u])) = element_text root3 ''preview''"
      using h(7-9) assms(6) active_preview_ok(2) [of net "log @ [u, u]" api body3 fromstring root3] by simp
    have am: "fst (get_active_input fromstring net api_m (log @ [u])) = element_text root2 ''active''"
      using h(4-6) assms(3,6) active_preview_ok(1) [of net "log @ [u]" api_m body2 fromstring root2] by simp
    have pm: "fst (get_preview_input fromstring net api_m (log @ [u, u])) = element_text root3 ''preview''"
      using h(7-9) assms(3,6) active_preview_ok(2) [of net "log @ [u, u]" api_m body3 fromstring root3] by simp
    show ?thesis
      using api_level mobile_level
      unfolding i im a p am pm
      by (auto simp add: from_snapshot_def from_snapshot_m_def)
  qed
  show ?thesis
    using api_level mobile_level docs by blast
qed

text \<open>
  C4 as stated fails: the mixer switches from \<^verbatim>\<open>A\<close> to \<^verbatim>\<open>B\<close> between the first and
  the second request of a reload. The desktop controller then shows the inputs 1, 2, 3 of
  \<^verbatim>\<open>A\<close> together with the active and preview input 7 of \<^verbatim>\<open>B\<close>, a state that is the
  snapshot of neither document.
\<close>

theorem load_inputs_mixes_snapshots:
  "map fst (input_tiles (load_inputs fromstring_AB net_AB desk_A)) = [Some ''1'', Some ''2'', Some ''3'']
   \<and> active_input (load_inputs fromstring_AB net_AB desk_A) = Some ''7''
   \<and> preview_input (load_inputs fromstring_AB net_AB desk_A) = Some ''7''
   \<and> \<not> from_snapshot doc_A (load_inputs fromstring_AB net_AB desk_A)
   \<and> \<not> from_snapshot doc_B (load_inputs fromstring_AB net_AB desk_A)"
proof -
  have b: "input_tiles (load_inputs fromstring_AB net_AB desk_A) \<noteq>
             build_tiles (map make_input_data (findall doc_B ''inputs'' ''input'')) []"
  proof
    assume "input_tiles (load_inputs fromstring_AB net_AB desk_A) =
             build_tiles (map make_input_data (findall doc_B ''inputs'' ''input'')) []"
    then have "map fst (input_tiles (load_inputs fromstring_AB net_AB desk_A)) = [Some ''7'']"
      by (simp only: tiles_doc_B)
    then show False
      by (simp add: load_inputs_net_AB desk_A_fields tiles_doc_A)
  qed
  show ?thesis
    using b
    by (simp add: load_inputs_net_AB desk_A_fields tiles_doc_A from_snapshot_def element_text_docs)
qed

text \<open>
  The same reload through the theorem, a reload during which the mixer does not change,
  and a reload while the link is down.
\<close>

theorem load_inputs_three_fetches_witness:
  "vmix_api desk_A = Some api_5
   \<and> vmix_api_m mobile_A = Some (vMixAPI_init_m ''10.0.0.5'' ''8088'')
   \<and> http_log_m mobile_A = http_log desk_A
   \<and> net_AB (http_log desk_A) ''http://10.0.0.5:8088/api/'' = Response 200 ''A''
   \<and> net_AB (http_log desk_A @ [''http://10.0.0.5:8088/api/'']) ''http://10.0.0.5:8088/api/''
       = Response 200 ''B''
   \<and> net_AB (http_log desk_A @ [''http://10.0.0.5:8088/api/'', ''http://10.0.0.5:8088/api/''])
         ''http://10.0.0.5:8088/api/'' = Response 200 ''B''
   \<and> fromstring_AB ''A'' = Some doc_A \<and> fromstring_AB ''B'' = Some doc_B
   \<and> findall doc_A ''inputs'' ''input'' \<noteq> []
   \<and> input_tiles (load_inputs fromstring_AB net_AB desk_A) =
       build_tiles (map make_input_data (findall doc_A ''inputs'' ''input'')) []
   \<and> active_input (load_inputs fromstring_AB net_AB desk_A) = Some ''7''
   \<and> preview_input (load_inputs fromstring_AB net_AB desk_A) = Some ''7''
   \<and> inputs_m (load_inputs_m fromstring_AB net_AB mobile_A) =
       map make_input_data_m (findall doc_A ''inputs'' ''input'')
   \<and> active_input_m (load_inputs_m fromstring_AB net_AB mobile_A) = Some ''7''
   \<and> preview_input_m (load_inputs_m fromstring_AB net_AB mobile_A) = Some ''7''
   \<and> from_snapshot doc_A (load_inputs fromstring_AB (net_const (Response 200 ''A'')) desk_A)
   \<and> from_snapshot_m doc_A (load_inputs_m fromstring_AB (net_const (Response 200 ''A'')) mobile_A)
   \<and> fst (get_inputs fromstring_AB (net_const ConnectionError) api_5 (http_log desk_A)) = []
   \<and> input_tiles (load_inputs fromstring_AB (net_const ConnectionError) desk_A) = []
   \<and> active_input (load_inputs fromstring_AB (net_const ConnectionError) desk_A) = Some ''1''
   \<and> preview_input (load_inputs fromstring_AB (net_const ConnectionError) desk_A) = Some ''3''
   \<and> http_log (load_inputs fromstring_AB (net_const ConnectionError) desk_A) =
       http_log desk_A @ [''http://10.0.0.5:8088/api/'']
   \<and> inputs_m (load_inputs_m fromstring_AB (net_const ConnectionError) mobile_A) = []
   \<and> http_log_m (load_inputs_m fromstring_AB (net_const ConnectionError) mobile_A) =
       http_log_m mobile_A @ [''http://10.0.0.5:8088/api/'', ''http://10.0.0.5:8088/api/'',
                              ''http://10.0.0.5:8088/api/'']"
proof -
  let ?u = "''http://10.0.0.5:8088/api/''"
  let ?log = "[?u, ?u, ?u, ?u]"
  have h1: "vmix_api desk_A = Some api_5" by (simp add: desk_A_fields)
  have h2: "vmix_api_m mobile_A = Some (vMixAPI_init_m ''10.0.0.5'' ''8088'')"
    by (simp add: mobile_A_fields)
  have h3: "base_url (vMixAPI_init_m ''10.0.0.5'' ''8088'') = base_url api_5"
    by (simp add: api_5_url api_m_url)
  have h4: "http_log desk_A = ?log" by (simp add: desk_A_fields)
  have h5: "http_log_m mobile_A = ?log" by (simp add: mobile_A_fields)
  have h6: "?u = base_url api_5 @ ''/''" by (simp add: api_5_url)
  have pa: "fromstring_AB ''A'' = Some doc_A" and pb: "fromstring_AB ''B'' = Some doc_B"
    by (simp_all add: fromstring_AB_simps)
  have ne: "findall doc_A ''inputs'' ''input'' \<noteq> []" by (simp add: findall_doc_A)
  have mixed_answers:
    "net_AB ?log ?u = Response 200 ''A'' \<and> ''A'' \<noteq> [] \<and> fromstring_AB ''A'' = Some doc_A
     \<and> net_AB (?log @ [?u]) ?u = Response 200 ''B'' \<and> ''B'' \<noteq> [] \<and> fromstring_AB ''B'' = Some doc_B
     \<and> net_AB (?log @ [?u, ?u]) ?u = Response 200 ''B'' \<and> ''B'' \<noteq> [] \<and> fromstring_AB ''B'' = Some doc_B"
    by (simp add: net_AB_answers fromstring_AB_simps)
  have same_answers:
    "net_const (Response 200 ''A'') ?log ?u = Response 200 ''A'' \<and> ''A'' \<noteq> []
     \<and> fromstring_AB ''A'' = Some doc_A
     \<and> net_const (Response 200 ''A'') (?log @ [?u]) ?u = Response 200 ''A'' \<and> ''A'' \<noteq> []
     \<and> fromstring_AB ''A'' = Some doc_A
     \<and> net_const (Response 200 ''A'') (?log @ [?u, ?u]) ?u = Response 200 ''A'' \<and> ''A'' \<noteq> []
     \<and> fromstring_AB ''A'' = Some doc_A"
    by (simp add: net_const_def fromstring_AB_simps)
  have down: "fst (get_inputs fromstring_AB (net_const ConnectionError) api_5 ?log) = []"
             "fst (get_inputs_m fromstring_AB (net_const ConnectionError)
                     (vMixAPI_init_m ''10.0.0.5'' ''8088'') ?log) = []"
    by (simp_all add: failed_fetch_xml failed_fetch_def net_const_def)
  note mixed = load_inputs_three_fetches
                 [where net = net_AB and fromstring = fromstring_AB, OF h1 h2 h3 h4 h5 h6]
  note same = load_inputs_three_fetches
                 [where net = "net_const (Response 200 ''A'')" and fromstring = fromstring_AB,
                  OF h1 h2 h3 h4 h5 h6]
  note lost = load_inputs_three_fetches
                 [where net = "net_const ConnectionError" and fromstring = fromstring_AB,
                  OF h1 h2 h3 h4 h5 h6]
  note mixed_docs = mixed [THEN conjunct2, THEN conjunct2, THEN conjunct2, THEN conjunct2,
                           THEN conjunct2, THEN conjunct2, rule_format, OF mixed_answers]
  note same_docs = same [THEN conjunct2, THEN conjunct2, THEN conjunct2, THEN conjunct2,
                         THEN conjunct2, THEN conjunct2, rule_format, OF same_answers]
  from mixed_docs same_docs lost h1 h2 h4 h5 mixed_answers ne down
  show ?thesis by (simp add: element_text_docs desk_A_fields)
qed






text \<open>
  C1 (what the code does). While every request for the state document fails (the call
  raises, the status is not 200, the body is empty or does not parse), a poll tick of a
  connected controller does not skip: it stores \<^verbatim>\<open>None\<close> as active and as preview
  input, and publishes that as a change whenever one of the two was known before; the
  mobile client empties its input list as well. The client object stays in place, so the
  controller remains connected.
\<close>

theorem update_states_failure_overwrites:
  assumes "vmix_api s = Some api" and "vmix_api_m m = Some api_m"
      and "base_url api_m = base_url api"
      and "\<forall>log. failed_fetch fromstring (net log (base_url api @ ''/''))"
  shows "active_input (update_states fromstring net s) = None
       \<and> preview_input (update_states fromstring net s) = None
       \<and> vmix_api (update_states fromstring net s) = Some api
       \<and> (active_input s \<noteq> None \<or> preview_input s \<noteq> None \<longrightarrow>
            ui (update_states fromstring net s) = ui s @ [UpdateTileStyles, UpdateInputInfo])
       \<and> active_input_m (update_states_m fromstring net m) = None
       \<and> preview_input_m (update_states_m fromstring net m) = None
       \<and> vmix_api_m (update_states_m fromstring net m) = Some api_m
       \<and> (active_input_m m \<noteq> None \<or> preview_input_m m \<noteq> None \<longrightarrow>
            inputs_m (update_states_m fromstring net m) = [])"
proof -
  have a: "fst (get_active_input fromstring net api log) = None"
          "fst (get_preview_input fromstring net api log) = None" for log
    using assms(4) by (simp_all add: get_active_input_def get_preview_input_def failed_fetch_xml)
  have am: "fst (get_active_input fromstring net api_m log) = None"
           "fst (get_preview_input fromstring net api_m log) = None"
           "fst (get_inputs_m fromstring net api_m log) = []" for log
    using assms(3,4) by (simp_all add: get_active_input_def get_preview_input_def failed_fetch_xml)
  have d: "active_input (update_states fromstring net s) = None
       \<and> preview_input (update_states fromstring net s) = None
       \<and> vmix_api (update_states fromstring net s) = Some api
       \<and> (active_input s \<noteq> None \<or> preview_input s \<noteq> None \<longrightarrow>
            ui (update_states fromstring net s) = ui s @ [UpdateTileStyles, UpdateInputInfo])"
    using assms(1) a by (auto simp add: update_states_unfold Let_def)
  obtain l1 where l1: "get_active_input fromstring net api_m (http_log_m m) = (None, l1)"
    using am(1) [of "http_log_m m"] by (cases "get_active_input fromstring net api_m (http_log_m m)") simp
  obtain l2 where l2: "get_preview_input fromstring net api_m l1 = (None, l2)"
    using am(2) [of l1] by (cases "get_preview_input fromstring net api_m l1") simp
  have e: "active_input_m (update_states_m fromstring net m) = None
       \<and> preview_input_m (update_states_m fromstring net m) = None
       \<and> vmix_api_m (update_states_m fromstring net m) = Some api_m
       \<and> (active_input_m m \<noteq> None \<or> preview_input_m m \<noteq> None \<longrightarrow>
            inputs_m (update_states_m fromstring net m) = [])"
    using assms(2) l1 l2 am
    by (auto simp add: update_states_m_def Let_def load_inputs_m_unfold)
  show ?thesis using d e by simp
qed

text \<open>
  The failing input of C1: both controllers know active input 1 and preview input 3, and
  the link goes down (or the body no longer parses). After one tick both values are
  \<^verbatim>\<open>None\<close>.
\<close>

theorem update_states_failure_overwrites_witness:
  "vmix_api desk_A = Some api_5
   \<and> vmix_api_m mobile_A = Some (vMixAPI_init_m ''10.0.0.5'' ''8088'')
   \<and> (\<forall>log. failed_fetch fromstring_AB (net_const ConnectionError log (base_url api_5 @ ''/'')))
   \<and> (\<forall>log. failed_fetch fromstring_AB (net_const (Response 200 ''<vmix'') log (base_url api_5 @ ''/'')))
   \<and> active_input desk_A = Some ''1'' \<and> preview_input desk_A = Some ''3''
   \<and> active_input (update_states fromstring_AB (net_const ConnectionError) desk_A) = None
   \<and> preview_input (update_states fromstring_AB (net_const ConnectionError) desk_A) = None
   \<and> vmix_api (update_states fromstring_AB (net_const ConnectionError) desk_A) = Some api_5
   \<and> ui (update_states fromstring_AB (net_const ConnectionError) desk_A) =
       ui desk_A @ [UpdateTileStyles, UpdateInputInfo]
   \<and> active_input (update_states fromstring_AB (net_const (Response 200 ''<vmix'')) desk_A) = None
   \<and> preview_input (update_states fromstring_AB (net_const (Response 200 ''<vmix'')) desk_A) = None
   \<and> active_input_m mobile_A = Some ''1'' \<and> preview_input_m mobile_A = Some ''3''
   \<and> length (inputs_m mobile_A) = 3
   \<and> active_input_m (update_states_m fromstring_AB (net_const ConnectionError) mobile_A) = None
   \<and> preview_input_m (update_states_m fromstring_AB (net_const ConnectionError) mobile_A) = None
   \<and> inputs_m (update_states_m fromstring_AB (net_const ConnectionError) mobile_A) = []"
proof -
  have h1: "vmix_api desk_A = Some api_5" by (simp add: desk_A_fields)
  have h2: "vmix_api_m mobile_A = Some (vMixAPI_init_m ''10.0.0.5'' ''8088'')"
    by (simp add: mobile_A_fields)
  have h3: "base_url (vMixAPI_init_m ''10.0.0.5'' ''8088'') = base_url api_5"
    by (simp add: api_5_url api_m_url)
  have f1: "\<forall>log. failed_fetch fromstring_AB (net_const ConnectionError log (base_url api_5 @ ''/''))"
    by (simp add: failed_fetch_def net_const_def)
  have f2: "\<forall>log. failed_fetch fromstring_AB (net_const (Response 200 ''<vmix'') log (base_url api_5 @ ''/''))"
    by (simp add: failed_fetch_def net_const_def fromstring_AB_def)
  have n: "length (inputs_m mobile_A) = 3" by (simp add: mobile_A_fields findall_doc_A)
  from update_states_failure_overwrites [where net = "net_const ConnectionError"
           and fromstring = fromstring_AB, OF h1 h2 h3 f1]
       update_states_failure_overwrites [where net = "net_const (Response 200 ''<vmix'')"
           and fromstring = fromstring_AB, OF h1 h2 h3 f2]
       h1 h2 f1 f2 n
  show ?thesis by (simp add: desk_A_fields mobile_A_fields)
qed



text \<open>
  C5 (what the code does). \<^verbatim>\<open>fade_to_black\<close> when the command is refused. On the
  desktop, a refused switch-on takes the flip back and shows the error; a refused
  switch-off leaves the flag false, shows nothing and leaves the blink timer as it was.
  The mobile client keeps the flip in both directions and shows the new value.
\<close>

theorem fade_to_black_failure:
  assumes "vmix_api s = Some api" and "vmix_api_m m = Some api_m"
      and "\<not> accepted (net (http_log s) (base_url api @ ''/?Function=FadeToBlack''))"
      and "\<not> accepted (net (http_log_m m) (base_url api_m @ ''/?Function=FadeToBlack''))"
  shows "(ftb_active s \<longrightarrow>
            fade_to_black net s =
              s\<lparr>ftb_active := False,
                http_log := http_log s @ [base_url api @ ''/?Function=FadeToBlack'']\<rparr>)
       \<and> (\<not> ftb_active s \<longrightarrow>
            fade_to_black net s =
              s\<lparr>ftb_active := False,
                http_log := http_log s @ [base_url api @ ''/?Function=FadeToBlack''],
                ui := ui s @ [ShowMessage CrossMark ''Fade To Black error'']\<rparr>)
       \<and> fade_to_black_m net m =
            m\<lparr>ftb_active_m := \<not> ftb_active_m m,
              http_log_m := http_log_m m @ [base_url api_m @ ''/?Function=FadeToBlack''],
              status_text := ''FTB: '' @ (if ftb_active_m m then ''OFF'' else ''ON'')\<rparr>"
  using assms
  by (auto simp add: fade_to_black_def fade_to_black_m_def send_command_nil accepted_def Let_def
        showMessage_def emit_def)

text \<open>
  The failing input of C5: two calls in a row from the flag off, the first command
  accepted, the second lost. After the second call the flag is off although the mixer
  still is black, the blink timer still runs and no message was added. A lost first
  command is taken back on the desktop and kept on the mobile client.
\<close>

theorem fade_to_black_failure_witness:
  "vmix_api (fade_to_black net_ftb desk_A) = Some api_5
   \<and> vmix_api_m (fade_to_black_m net_ftb mobile_A) = Some (vMixAPI_init_m ''10.0.0.5'' ''8088'')
   \<and> \<not> ftb_active desk_A
   \<and> ftb_active (fade_to_black net_ftb desk_A)
   \<and> ftb_timer (fade_to_black net_ftb desk_A)
   \<and> \<not> accepted (net_ftb (http_log (fade_to_black net_ftb desk_A))
                    (base_url api_5 @ ''/?Function=FadeToBlack''))
   \<and> \<not> ftb_active (fade_to_black net_ftb (fade_to_black net_ftb desk_A))
   \<and> ftb_timer (fade_to_black net_ftb (fade_to_black net_ftb desk_A))
   \<and> ui (fade_to_black net_ftb (fade_to_black net_ftb desk_A)) = ui (fade_to_black net_ftb desk_A)
   \<and> ftb_active_m (fade_to_black_m net_ftb mobile_A)
   \<and> \<not> ftb_active_m (fade_to_black_m net_ftb (fade_to_black_m net_ftb mobile_A))
   \<and> status_text (fade_to_black_m net_ftb (fade_to_black_m net_ftb mobile_A)) = ''FTB: OFF''
   \<and> \<not> accepted (net_const ConnectionError (http_log desk_A) (base_url api_5 @ ''/?Function=FadeToBlack''))
   \<and> \<not> ftb_active (fade_to_black (net_const ConnectionError) desk_A)
   \<and> ui (fade_to_black (net_const ConnectionError) desk_A) =
       ui desk_A @ [ShowMessage CrossMark ''Fade To Black error'']
   \<and> ftb_active_m (fade_to_black_m (net_const ConnectionError) mobile_A)
   \<and> status_text (fade_to_black_m (net_const ConnectionError) mobile_A) = ''FTB: ON''"
proof -
  let ?c = "''http://10.0.0.5:8088/api/?Function=FadeToBlack''"
  have s1: "fade_to_black net_ftb desk_A =
              desk_A\<lparr>ftb_active := True, ftb_timer := True, http_log := http_log desk_A @ [?c],
                     ui := ui desk_A @ [ShowMessage Moon ''Fade To Black enabled'']\<rparr>"
    by (simp add: fade_to_black_def desk_A_fields send_command_nil net_ftb_def net_script_def
          Let_def showMessage_def emit_def api_5_url)
  have m1: "fade_to_black_m net_ftb mobile_A =
              mobile_A\<lparr>ftb_active_m := True, status_text := ''FTB: ON'',
                       http_log_m := http_log_m mobile_A @ [?c]\<rparr>"
    by (simp add: fade_to_black_m_def mobile_A_fields send_command_nil net_ftb_def net_script_def
          Let_def api_m_url)
  have h1: "vmix_api (fade_to_black net_ftb desk_A) = Some api_5"
    by (simp add: s1 desk_A_fields)
  have h2: "vmix_api_m (fade_to_black_m net_ftb mobile_A) = Some (vMixAPI_init_m ''10.0.0.5'' ''8088'')"
    by (simp add: m1 mobile_A_fields)
  have h3: "\<not> accepted (net_ftb (http_log (fade_to_black net_ftb desk_A))
                    (base_url api_5 @ ''/?Function=FadeToBlack''))"
    unfolding s1 by (simp add: desk_A_fields net_ftb_def net_script_def accepted_def)
  have h4: "\<not> accepted (net_ftb (http_log_m (fade_to_black_m net_ftb mobile_A))
                    (base_url (vMixAPI_init_m ''10.0.0.5'' ''8088'') @ ''/?Function=FadeToBlack''))"
    unfolding m1 by (simp add: mobile_A_fields net_ftb_def net_script_def accepted_def)
  have g1: "vmix_api desk_A = Some api_5" by (simp add: desk_A_fields)
  have g2: "vmix_api_m mobile_A = Some (vMixAPI_init_m ''10.0.0.5'' ''8088'')"
    by (simp add: mobile_A_fields)
  have g3: "\<not> accepted (net_const ConnectionError (http_log desk_A) (base_url api_5 @ ''/?Function=FadeToBlack''))"
    by (simp add: net_const_def accepted_def)
  have g4: "\<not> accepted (net_const ConnectionError (http_log_m mobile_A)
                    (base_url (vMixAPI_init_m ''10.0.0.5'' ''8088'') @ ''/?Function=FadeToBlack''))"
    by (simp add: net_const_def accepted_def)
  have on: "ftb_active (fade_to_black net_ftb desk_A)" "ftb_timer (fade_to_black net_ftb desk_A)"
           "ftb_active_m (fade_to_black_m net_ftb mobile_A)"
    by (simp_all add: s1 m1)
  have off: "\<not> ftb_active desk_A" "\<not> ftb_active_m mobile_A"
    by (simp_all add: desk_A_fields mobile_A_fields)
  from fade_to_black_failure [OF h1 h2 h3 h4] fade_to_black_failure [OF g1 g2 g3 g4]
       h1 h2 h3 g3 on off
  show ?thesis by simp
qed



text \<open>
  C3 (what the code does). The mobile \<^verbatim>\<open>quick_play\<close> with a preview input: whatever the
  mixer answers, exactly one command is sent, the \<^verbatim>\<open>Fade\<close>, followed by the three
  requests of \<^verbatim>\<open>load_inputs\<close>; no \<^verbatim>\<open>Cut\<close> follows a refused fade. The active input
  ends as the reload reads it and the status text announces a transition.
\<close>

theorem quick_play_m_no_fallback:
  assumes "vmix_api_m m = Some api" and "preview_input_m m = Some p" and "p \<noteq> []"
      and "fade = base_url api @ ''/?Function=Fade&Input='' @ p"
      and "u = base_url api @ ''/''"
  shows "http_log_m (quick_play_m fromstring net m) = http_log_m m @ [fade, u, u, u]
       \<and> active_input_m (quick_play_m fromstring net m) =
           fst (get_active_input fromstring net api (http_log_m m @ [fade, u]))
       \<and> status_text (quick_play_m fromstring net m) =
           ''Transition to V'' @ str_opt (preview_input_m (quick_play_m fromstring net m))"
  using assms
  by (simp add: quick_play_m_def send_command_input Let_def load_inputs_m_unfold)

text \<open>
  The failing input of C3: preview input 3, a mixer that refuses \<^verbatim>\<open>Fade\<close> to input 3 and
  would accept \<^verbatim>\<open>Cut\<close>. The mobile client sends no \<^verbatim>\<open>Cut\<close>, announces the transition
  and ends with active input 1; the desktop controller, on the same mixer, sends the
  \<^verbatim>\<open>Cut\<close> and ends with active input 3.
\<close>

theorem quick_play_m_no_fallback_witness:
  "vmix_api_m mobile_A = Some (vMixAPI_init_m ''10.0.0.5'' ''8088'')
   \<and> preview_input_m mobile_A = Some ''3'' \<and> ''3'' \<noteq> []
   \<and> active_input_m mobile_A = Some ''1''
   \<and> \<not> accepted (net_refusing ''http://10.0.0.5:8088/api/?Function=Fade&Input=3'' (Response 200 ''A'')
                    (http_log_m mobile_A) ''http://10.0.0.5:8088/api/?Function=Fade&Input=3'')
   \<and> accepted (net_refusing ''http://10.0.0.5:8088/api/?Function=Fade&Input=3'' (Response 200 ''A'')
                    (http_log_m mobile_A @ [''http://10.0.0.5:8088/api/?Function=Fade&Input=3''])
                    ''http://10.0.0.5:8088/api/?Function=Cut&Input=3'')
   \<and> http_log_m (quick_play_m fromstring_AB
         (net_refusing ''http://10.0.0.5:8088/api/?Function=Fade&Input=3'' (Response 200 ''A'')) mobile_A) =
       http_log_m mobile_A @ [''http://10.0.0.5:8088/api/?Function=Fade&Input=3'',
                              ''http://10.0.0.5:8088/api/'', ''http://10.0.0.5:8088/api/'',
                              ''http://10.0.0.5:8088/api/'']
   \<and> active_input_m (quick_play_m fromstring_AB
         (net_refusing ''http://10.0.0.5:8088/api/?Function=Fade&Input=3'' (Response 200 ''A'')) mobile_A) =
       Some ''1''
   \<and> status_text (quick_play_m fromstring_AB
         (net_refusing ''http://10.0.0.5:8088/api/?Function=Fade&Input=3'' (Response 200 ''A'')) mobile_A) =
       ''Transition to V3''
   \<and> http_log (quick_play
         (net_refusing ''http://10.0.0.5:8088/api/?Function=Fade&Input=3'' (Response 200 ''A'')) desk_A) =
       http_log desk_A @ [''http://10.0.0.5:8088/api/?Function=Fade&Input=3'',
                          ''http://10.0.0.5:8088/api/?Function=Cut&Input=3'']
   \<and> active_input (quick_play
         (net_refusing ''http://10.0.0.5:8088/api/?Function=Fade&Input=3'' (Response 200 ''A'')) desk_A) =
       Some ''3''"
proof -
  let ?f = "''http://10.0.0.5:8088/api/?Function=Fade&Input=3''"
  let ?net = "net_refusing ?f (Response 200 ''A'')"
  let ?am = "vMixAPI_init_m ''10.0.0.5'' ''8088''"
  have h1: "vmix_api_m mobile_A = Some ?am" by (simp add: mobile_A_fields)
  have h2: "preview_input_m mobile_A = Some ''3''" by (simp add: mobile_A_fields)
  have h3: "''3'' \<noteq> []" by simp
  have h4: "?f = base_url ?am @ ''/?Function=Fade&Input='' @ ''3''" by (simp add: api_m_url)
  have h5: "''http://10.0.0.5:8088/api/'' = base_url ?am @ ''/''" by (simp add: api_m_url)
  have r: "\<not> accepted (?net (http_log_m mobile_A) ?f)"
          "accepted (?net (http_log_m mobile_A @ [?f]) ''http://10.0.0.5:8088/api/?Function=Cut&Input=3'')"
    by (simp_all add: net_refusing_def accepted_def)
  have s: "?net log ''http://10.0.0.5:8088/api/'' = Response 200 ''A''" for log
    by (simp add: net_refusing_def)
  have a: "fst (get_active_input fromstring_AB ?net ?am log) = Some ''1''"
          "fst (get_preview_input fromstring_AB ?net ?am log) = Some ''3''" for log
    using s [of log]
    by (simp_all add: active_preview_ok [where body = "''A''" and root = doc_A] api_m_url
          fromstring_AB_simps element_text_docs)
  have d: "http_log (quick_play ?net desk_A) =
             http_log desk_A @ [?f, ''http://10.0.0.5:8088/api/?Function=Cut&Input=3'']
           \<and> active_input (quick_play ?net desk_A) = Some ''3''"
    by (simp add: quick_play_def desk_A_fields send_command_input net_refusing_def api_5_url
          Let_def showMessage_def emit_def)
  have pv: "preview_input_m (quick_play_m fromstring_AB ?net mobile_A) = Some ''3''"
    by (simp add: quick_play_m_def mobile_A_fields send_command_input Let_def
          load_inputs_m_unfold [where api = ?am] a)
  from quick_play_m_no_fallback [OF h1 h2 h3 h4 h5, of fromstring_AB ?net] h1 h2 r d pv
  show ?thesis
    by (simp add: a mobile_A_fields str_opt_def)
qed




text \<open>
  C10. Whenever \<^verbatim>\<open>Settings.save\<close> runs with \<^verbatim>\<open>remember_creds\<close> false, the
  \<^verbatim>\<open>login\<close> and \<^verbatim>\<open>password\<close> entries written to \<^verbatim>\<open>vmix_settings.json\<close> are empty
  strings, and the whole file content is the same whatever the in-memory login and
  password are: replacing them by any other pair of values leaves the written file
  unchanged. Hence a non-empty credential on disk implies \<^verbatim>\<open>remember_creds\<close>.
\<close>

theorem save_hides_credentials:
  assumes "\<not> remember_creds s"
  shows "map_of (save_data s) ''login'' = Some (JStr '''')
       \<and> map_of (save_data s) ''password'' = Some (JStr '''')
       \<and> save dump (s\<lparr>login := l, password := p\<rparr>) fs = save dump s fs
       \<and> save dump s fs ''vmix_settings.json'' = Some (dump (save_data s))"
  using assms by (simp add: save_def save_data_def)

theorem save_hides_credentials_witness:
  "map_of (save_data ((Settings_init ''1.0'' ''1.2'')\<lparr>login := ''admin'', password := ''secret''\<rparr>))
       ''login'' = Some (JStr '''')
   \<and> map_of (save_data ((Settings_init ''1.0'' ''1.2'')\<lparr>login := ''admin'', password := ''secret''\<rparr>))
       ''password'' = Some (JStr '''')
   \<and> save id ((Settings_init ''1.0'' ''1.2'')\<lparr>login := ''admin'', password := ''secret''\<rparr>) Map.empty
     = save id (Settings_init ''1.0'' ''1.2'') Map.empty"
proof -
  let ?s = "(Settings_init ''1.0'' ''1.2'')\<lparr>login := ''admin'', password := ''secret''\<rparr>"
  have h: "\<not> remember_creds ?s" by (simp add: Settings_init_def)
  have e: "?s\<lparr>login := '''', password := ''''\<rparr> = Settings_init ''1.0'' ''1.2''"
    by (simp add: Settings_init_def)
  from save_hides_credentials[OF h, of id "''''" "''''" Map.empty] e
  show ?thesis by simp
qed


end
